theory Spec2Isabelle
  imports Main "HOL-Library.Sublist"
begin

section \<open>JavaScript strings and values\<close>

text \<open>
  A JavaScript string is modelled as a \<open>string\<close> whose characters are the UTF-16 code
  units below 256 (ASCII and Latin-1); \<open>s.includes(t)\<close> is \<open>sublist t s\<close>.
  A value that may be \<open>null\<close> or \<open>undefined\<close> is an \<open>option\<close>, and the
  truthiness tests of the source (\<open>!x\<close>, \<open>x ? a : b\<close>, \<open>x && y\<close>) are the functions
  \<open>truthy_str\<close> and \<open>truthy_bool\<close>.
\<close>

definition truthy_str :: "string option \<Rightarrow> bool" where
  "truthy_str v = (case v of None \<Rightarrow> False | Some s \<Rightarrow> s \<noteq> [])"

definition truthy_bool :: "bool option \<Rightarrow> bool" where
  "truthy_bool v = (case v of None \<Rightarrow> False | Some b \<Rightarrow> b)"

text \<open>
  The characters that \<open>String.prototype.trim\<close> strips and that \<open>\s\<close> matches in a
  regular expression, among the code units below 256: tab, line feed, vertical tab, form
  feed, carriage return, space and the no-break space.
\<close>

definition js_whitespace :: "char \<Rightarrow> bool" where
  "js_whitespace c = (let n = (of_char c :: nat) in (9 \<le> n \<and> n \<le> 13) \<or> n = 32 \<or> n = 160)"

definition trim :: "string \<Rightarrow> string" where
  "trim s = rev (dropWhile js_whitespace (rev (dropWhile js_whitespace s)))"

text \<open>
  \<open>toLowerCase\<close> on the code units below 256: the letters A to Z, and the Latin-1 capitals
  (192 to 222 without the multiplication sign 215), move up by 32.
\<close>

definition toLowerChar :: "char \<Rightarrow> char" where
  "toLowerChar c =
     (let n = (of_char c :: nat)
      in if (65 \<le> n \<and> n \<le> 90) \<or> (192 \<le> n \<and> n \<le> 222 \<and> n \<noteq> 215)
         then char_of (n + 32) else c)"

definition toLowerCase :: "string \<Rightarrow> string" where
  "toLowerCase s = map toLowerChar s"

text \<open>
  \<open>s.replace(/[C]+/g, r)\<close> for a character class \<open>C\<close>: scanning from the left, every
  maximal run of characters of the class is replaced by \<open>r\<close>.
\<close>

function replace_runs :: "(char \<Rightarrow> bool) \<Rightarrow> string \<Rightarrow> string \<Rightarrow> string" where
  "replace_runs cls r [] = []"
| "replace_runs cls r (c # cs) =
     (if cls c then r @ replace_runs cls r (dropWhile cls cs)
      else c # replace_runs cls r cs)"
  by pat_completeness auto
termination
  by (relation "measure (\<lambda>(cls, r, s). length s)")
     (auto simp: less_Suc_eq_le length_dropWhile_le)

text \<open>The character classes of the source: \<open>[\s-]\<close>, \<open>[_\s]\<close> and \<open>-\<close>.\<close>

definition space_or_hyphen :: "char \<Rightarrow> bool" where
  "space_or_hyphen c = (js_whitespace c \<or> c = CHR ''-'')"

definition underscore_or_space :: "char \<Rightarrow> bool" where
  "underscore_or_space c = (c = CHR ''_'' \<or> js_whitespace c)"

definition hyphen :: "char \<Rightarrow> bool" where
  "hyphen c = (c = CHR ''-'')"

text \<open>
  An object literal such as \<open>ROLE_ROUTES\<close> is an association list of its own properties.
  Reading \<open>obj[key]\<close> also finds what the object inherits from \<open>Object.prototype\<close>: for
  the names below the read yields a function or an object, which is truthy.
\<close>

definition object_prototype_properties :: "string list" where
  "object_prototype_properties =
     [''constructor'', ''__proto__'', ''hasOwnProperty'', ''isPrototypeOf'',
      ''propertyIsEnumerable'', ''toLocaleString'', ''toString'', ''valueOf'',
      ''__defineGetter__'', ''__defineSetter__'', ''__lookupGetter__'', ''__lookupSetter__'']"

datatype property = Own string | Inherited | Undefined

definition js_get :: "(string \<times> string) list \<Rightarrow> string \<Rightarrow> property" where
  "js_get obj key =
     (case map_of obj key of
        Some v \<Rightarrow> Own v
      | None \<Rightarrow> if key \<in> set object_prototype_properties then Inherited else Undefined)"

fun truthy_property :: "property \<Rightarrow> bool" where
  "truthy_property (Own v) = (v \<noteq> [])"
| "truthy_property Inherited = True"
| "truthy_property Undefined = False"

section \<open>Role normalisation\<close>

subsection \<open>Login page\<close>

definition login_ROLE_ROUTES :: "(string \<times> string) list" where
  "login_ROLE_ROUTES =
     [(''car_company'', ''/car-company/''),
      (''car-company'', ''/car-company/''),
      (''car company'', ''/car-company/''),
      (''insurance_company'', ''/insurance-company/''),
      (''insurance-company'', ''/insurance-company/''),
      (''insurance company'', ''/insurance-company/''),
      (''admin'', ''/admin-signup/''),
      (''administrator'', ''/admin-signup/'')]"

definition login_normalizeRole :: "string option \<Rightarrow> string option" where
  "login_normalizeRole role =
     (if \<not> truthy_str role then None
      else let normalized = replace_runs space_or_hyphen ''_'' (toLowerCase (trim (the role)))
           in if sublist ''car'' normalized \<and> sublist ''company'' normalized
              then Some ''car_company''
              else if sublist ''insurance'' normalized \<and> sublist ''company'' normalized
              then Some ''insurance_company''
              else if sublist ''admin'' normalized then Some ''admin''
              else if truthy_property (js_get login_ROLE_ROUTES normalized)
              then Some normalized else None)"

subsection \<open>Car-company and insurance portals\<close>

text \<open>
  The two portals declare the same \<open>ROLE_ROUTES\<close> and the same \<open>normalizeRole\<close>, which
  lowers the case before it trims and has no branch for \<open>admin\<close>.
\<close>

definition portal_ROLE_ROUTES :: "(string \<times> string) list" where
  "portal_ROLE_ROUTES =
     [(''car_company'', ''/car-company/''),
      (''car-company'', ''/car-company/''),
      (''insurance_company'', ''/insurance-company/''),
      (''insurance-company'', ''/insurance-company/'')]"

definition portal_normalizeRole :: "string option \<Rightarrow> string option" where
  "portal_normalizeRole role =
     (if \<not> truthy_str role then None
      else let v = replace_runs space_or_hyphen ''_'' (trim (toLowerCase (the role)))
           in if sublist ''car'' v \<and> sublist ''company'' v then Some ''car_company''
              else if sublist ''insurance'' v \<and> sublist ''company'' v
              then Some ''insurance_company''
              else if truthy_property (js_get portal_ROLE_ROUTES v) then Some v else None)"

section \<open>Rows of the remote tables\<close>

text \<open>
  A row of the \<open>documents\<close> table, with the columns the portals read and write. Each
  reviewer has a track of its own: the verified flag, the rejection note, the time of the
  verification and who made it. Columns that may hold \<open>null\<close> are options.
\<close>

record document =
  doc_id :: string
  doc_claim_id :: string
  doc_type :: string
  verified_by_car_company :: "bool option"
  car_company_verification_notes :: "string option"
  car_company_verification_date :: "string option"
  car_company_verified_by :: "string option"
  verified_by_insurance_company :: "bool option"
  insurance_verification_notes :: "string option"
  insurance_verification_date :: "string option"
  insurance_verified_by :: "string option"

text \<open>A row of the \<open>claims\<close> table.\<close>

record claim =
  claim_id :: string
  claim_number :: "string option"
  user_id :: "string option"
  status :: "string option"
  car_company_status :: "string option"
  is_approved_by_car_company :: "bool option"
  car_company_approval_date :: "string option"
  car_company_approval_notes :: "string option"
  is_approved_by_insurance_company :: "bool option"
  insurance_company_approval_date :: "string option"
  insurance_company_approval_notes :: "string option"
  approved_at :: "string option"
  rejected_at :: "string option"

text \<open>
  What the list views select: a claim with its documents embedded
  (\<open>select('*, documents (...)')\<close>). The source guards against a missing
  \<open>claim.documents\<close> in one place and reads it unguarded in others, so the field is an
  option.
\<close>

record claim_row = claim +
  documents :: "document list option"

section \<open>Car-company portal: list load\<close>

definition car_CAR_COMPANY_DOCUMENT_TYPES :: "string list" where
  "car_CAR_COMPANY_DOCUMENT_TYPES =
     [''lto_or'', ''lto_cr'', ''drivers_license'', ''owner_valid_id'', ''stencil_strips'',
      ''damage_photos'', ''job_estimate'', ''insurance_policy'', ''police_report'',
      ''additional_documents'']"

subsection \<open>The consistency sweep of \<open>loadClaims\<close>\<close>

definition isApproved :: "'a claim_scheme \<Rightarrow> bool" where
  "isApproved c =
     (car_company_status c = Some ''approved'' \<or> is_approved_by_car_company c = Some True)"

definition hasUnverifiedDocs :: "document list \<Rightarrow> bool" where
  "hasUnverifiedDocs docs =
     list_ex (\<lambda>doc. doc_type doc \<in> set car_CAR_COMPANY_DOCUMENT_TYPES \<and>
                     \<not> truthy_bool (verified_by_car_company doc)) docs"

text \<open>
  The body of \<open>claims.forEach\<close>: it returns the claim as the local object is left, and
  whether its id was pushed to \<open>claimsToRevert\<close>.
\<close>

definition sweep_claim :: "claim_row \<Rightarrow> claim_row \<times> bool" where
  "sweep_claim c =
     (if isApproved c \<and> documents c \<noteq> None \<and> hasUnverifiedDocs (the (documents c))
      then (c\<lparr>car_company_status := Some ''pending'',
               is_approved_by_car_company := Some False\<rparr>, True)
      else (c, False))"

fun sweep_forEach :: "claim_row list \<Rightarrow> claim_row list \<times> string list" where
  "sweep_forEach [] = ([], [])"
| "sweep_forEach (c # cs) =
     (let (c', reverted) = sweep_claim c; (cs', claimsToRevert) = sweep_forEach cs
      in (c' # cs', if reverted then claim_id c # claimsToRevert else claimsToRevert))"

definition claimsToRevert :: "claim_row list \<Rightarrow> string list" where
  "claimsToRevert cs = snd (sweep_forEach cs)"

text \<open>
  \<open>from('claims').update(f).in('id', ids)\<close> on the rows of the table; a write to the
  backend is modelled as taking effect.
\<close>

definition update_in :: "string list \<Rightarrow> ('a claim_scheme \<Rightarrow> 'a claim_scheme) \<Rightarrow>
    'a claim_scheme list \<Rightarrow> 'a claim_scheme list" where
  "update_in ids f rows = map (\<lambda>r. if claim_id r \<in> set ids then f r else r) rows"

definition revert_update :: "'a claim_scheme \<Rightarrow> 'a claim_scheme" where
  "revert_update r = r\<lparr>car_company_status := Some ''pending'',
                        is_approved_by_car_company := Some False,
                        car_company_approval_date := None\<rparr>"

text \<open>
  The sweep on what the select returned: the local objects as they are displayed, and the
  rows of the remote table after the update (which is sent only when \<open>claimsToRevert\<close>
  is not empty).
\<close>

definition sweep_local :: "claim_row list \<Rightarrow> claim_row list" where
  "sweep_local cs = (if length cs > 0 then fst (sweep_forEach cs) else cs)"

definition sweep_remote :: "claim_row list \<Rightarrow> claim_row list" where
  "sweep_remote cs =
     (if length cs > 0 \<and> length (claimsToRevert cs) > 0
      then update_in (claimsToRevert cs) revert_update cs else cs)"

subsection \<open>The counters of \<open>loadClaims\<close>\<close>

record car_counts =
  totalCarCompanyDocs :: int
  verifiedCarCompanyDocs :: int
  rejectedCarCompanyDocs :: int
  pendingCarCompanyDocs :: int

definition car_process :: "document list \<Rightarrow> car_counts" where
  "car_process docs =
     (let carCompanyDocs = filter (\<lambda>doc. doc_type doc \<in> set car_CAR_COMPANY_DOCUMENT_TYPES) docs;
          verifiedCarDocs = filter (\<lambda>doc. truthy_bool (verified_by_car_company doc)) carCompanyDocs;
          rejectedCarDocs = filter (\<lambda>doc. \<not> truthy_bool (verified_by_car_company doc) \<and>
                                          truthy_str (car_company_verification_notes doc))
                              carCompanyDocs
      in \<lparr>totalCarCompanyDocs = int (length carCompanyDocs),
          verifiedCarCompanyDocs = int (length verifiedCarDocs),
          rejectedCarCompanyDocs = int (length rejectedCarDocs),
          pendingCarCompanyDocs =
            int (length carCompanyDocs) - int (length verifiedCarDocs) - int (length rejectedCarDocs)\<rparr>)"

text \<open>
  What a load leaves on the screen: an error toast, or the view it was asked for.
  \<open>Thrown\<close> is a \<open>TypeError\<close> that no handler of the function catches.
\<close>

datatype 'a shown = ShowError string | Shown 'a | Thrown

text \<open>
  \<open>loadClaims\<close> from the reply of the select (\<open>None\<close> when the reply carries an
  error) to the rows handed to \<open>displayClaims\<close>: the sweep on the local objects, then
  the counters of every claim. Reading \<open>claim.documents.filter\<close> on a claim without
  documents throws inside the \<open>try\<close>, and the \<open>catch\<close> shows the same error.
\<close>

definition car_loadClaims :: "claim_row list option \<Rightarrow> (claim_row \<times> car_counts) list shown" where
  "car_loadClaims reply =
     (case reply of
        None \<Rightarrow> ShowError ''Failed to load claims''
      | Some claims \<Rightarrow>
          let swept = sweep_local claims
          in if list_ex (\<lambda>c. documents c = None) swept then ShowError ''Failed to load claims''
             else Shown (map (\<lambda>c. (c, car_process (the (documents c)))) swept))"

subsection \<open>The decision buttons\<close>

record decision_buttons =
  approveBtn_disabled :: bool
  rejectBtn_disabled :: bool

text \<open>
  \<open>setDecisionButtonsState(claim)\<close>, with the documents of the open claim
  (\<open>currentDocuments\<close>, selected with \<open>in('type', CAR_COMPANY_DOCUMENT_TYPES)\<close>); the
  two buttons are on the page.
\<close>

definition setDecisionButtonsState :: "document list \<Rightarrow> 'a claim_scheme option \<Rightarrow> decision_buttons" where
  "setDecisionButtonsState currentDocuments claim =
     (let allDocsVerified = (length currentDocuments > 0 \<and>
            list_all (\<lambda>d. truthy_bool (verified_by_car_company d)) currentDocuments);
          claimApprovedFlag = (case claim of None \<Rightarrow> False
                               | Some c \<Rightarrow> truthy_bool (is_approved_by_car_company c));
          approveDisabled = (\<not> allDocsVerified \<or> claimApprovedFlag)
      in \<lparr>approveBtn_disabled = approveDisabled,
          rejectBtn_disabled = (if claimApprovedFlag then True else False)\<rparr>)"

section \<open>Insurance portal: list load and approval button\<close>

definition INSURANCE_DOCUMENT_TYPES :: "string list" where
  "INSURANCE_DOCUMENT_TYPES =
     [''lto_or'', ''lto_cr'', ''drivers_license'', ''owner_valid_id'', ''stencil_strips'',
      ''damage_photos'', ''job_estimate'', ''insurance_policy'', ''police_report'',
      ''additional_documents'']"

definition ins_CAR_COMPANY_DOCUMENT_TYPES :: "string list" where
  "ins_CAR_COMPANY_DOCUMENT_TYPES =
     [''lto_or'', ''lto_cr'', ''drivers_license'', ''owner_valid_id'', ''stencil_strips'',
      ''damage_photos'', ''job_estimate'']"

text \<open>The predicate of \<open>claims.filter\<close> in \<open>loadClaims\<close>, on the documents of a claim.\<close>

definition eligible :: "document list \<Rightarrow> bool" where
  "eligible docs =
     (let carCompanyDocs = filter (\<lambda>doc. doc_type doc \<in> set ins_CAR_COMPANY_DOCUMENT_TYPES) docs
      in if length carCompanyDocs = 0 then False
         else list_all (\<lambda>doc. truthy_bool (verified_by_car_company doc)) carCompanyDocs)"

record ins_counts =
  totalInsuranceDocs :: int
  verifiedInsuranceDocs :: int
  rejectedInsuranceDocs :: int
  pendingInsuranceDocs :: int
  readyForApproval :: bool

definition ins_process :: "document list \<Rightarrow> ins_counts" where
  "ins_process docs =
     (let insuranceDocs = filter (\<lambda>doc. doc_type doc \<in> set INSURANCE_DOCUMENT_TYPES) docs;
          verifiedInsuranceDocs = filter (\<lambda>doc. truthy_bool (verified_by_insurance_company doc)) insuranceDocs;
          rejectedInsuranceDocs = filter (\<lambda>doc. truthy_str (insurance_verification_notes doc)) insuranceDocs;
          allDocsVerified = (length insuranceDocs > 0 \<and>
            list_all (\<lambda>doc. truthy_bool (verified_by_insurance_company doc)) insuranceDocs)
      in \<lparr>totalInsuranceDocs = int (length insuranceDocs),
          verifiedInsuranceDocs = int (length verifiedInsuranceDocs),
          rejectedInsuranceDocs = int (length rejectedInsuranceDocs),
          pendingInsuranceDocs =
            int (length insuranceDocs) - int (length verifiedInsuranceDocs)
              - int (length rejectedInsuranceDocs),
          readyForApproval = allDocsVerified\<rparr>)"

text \<open>
  \<open>loadClaims\<close> of the insurance portal, from the reply of the select (\<open>None\<close> when the
  reply carries an error) to the rows handed to \<open>displayClaims\<close>. Reading
  \<open>claim.documents.filter\<close> on a claim without documents throws inside the \<open>try\<close>, and
  the \<open>catch\<close> shows the same error.
\<close>

definition ins_loadClaims :: "claim_row list option \<Rightarrow> (claim_row \<times> ins_counts) list shown" where
  "ins_loadClaims reply =
     (case reply of
        None \<Rightarrow> ShowError ''Failed to load claims''
      | Some claims \<Rightarrow>
          if list_ex (\<lambda>c. documents c = None) claims then ShowError ''Failed to load claims''
          else let eligibleClaims = filter (\<lambda>c. eligible (the (documents c))) claims
               in Shown (map (\<lambda>c. (c, ins_process (the (documents c)))) eligibleClaims))"

text \<open>
  \<open>viewClaimDocuments(claimId)\<close> up to the decision to show the documents page, from
  the reply of \<open>select(...).eq('id', claimId).single()\<close>.
\<close>

definition ins_viewClaimDocuments :: "claim_row option \<Rightarrow> unit shown" where
  "ins_viewClaimDocuments reply =
     (case reply of
        None \<Rightarrow> ShowError ''Failed to load claim details''
      | Some c \<Rightarrow>
          (case documents c of
             None \<Rightarrow> Thrown
           | Some docs \<Rightarrow>
               let carCompanyDocs = filter (\<lambda>doc. doc_type doc \<in> set ins_CAR_COMPANY_DOCUMENT_TYPES) docs;
                   allCarDocsVerified = (length carCompanyDocs > 0 \<and>
                     list_all (\<lambda>doc. truthy_bool (verified_by_car_company doc)) carCompanyDocs)
               in if \<not> allCarDocsVerified
                  then ShowError ''This claim is not ready for insurance review. All car company documents must be verified first.''
                  else Shown ()))"

record approval_controls =
  approveClaimBtn_disabled :: bool
  approvalActionsRow_displayed :: bool

text \<open>
  \<open>updateApprovalButtonStatus(insuranceDocuments)\<close>; \<open>isModalOpen\<close> is whether the
  document viewer is open.
\<close>

definition updateApprovalButtonStatus :: "bool \<Rightarrow> bool \<Rightarrow> document list \<Rightarrow> approval_controls" where
  "updateApprovalButtonStatus currentClaimApproved isModalOpen insuranceDocuments =
     (let allVerified = (length insuranceDocuments > 0 \<and>
            list_all (\<lambda>doc. truthy_bool (verified_by_insurance_company doc)) insuranceDocuments)
      in \<lparr>approveClaimBtn_disabled = (if allVerified then False else True),
          approvalActionsRow_displayed = (\<not> currentClaimApproved \<and> \<not> isModalOpen)\<rparr>)"

section \<open>Review pages\<close>

text \<open>
  The pages read and write the remote tables, a few globals, and the controls of the
  claim decision. The state holds the two tables, the globals, the \<open>disabled\<close> attribute
  of the Approve and Reject buttons (\<open>approveClaimBtn\<close>, \<open>rejectClaimBtn\<close>), whether the
  row that holds them is displayed (\<open>carClaimDecisionActions\<close> in the car-company portal,
  \<open>approvalActionsRow\<close> in the insurance portal), whether the document viewer is open,
  the toasts shown by \<open>notify\<close> and the writes sent to the backend.
  Whether the backend applies a write to a table, the signed-in user and the clock are in
  \<open>backend\<close>. Rows come in the order of the table. What a handler defers with
  \<open>setTimeout\<close> (the move to the next document, the reload of the list) and what it
  only draws (counters, document cards, banners) is not part of the state.
\<close>

datatype request =
    UpdateDocument string
  | UpdateClaim string
  | SendNotification string string string string

record portal =
  db_claims :: "claim list"
  db_documents :: "document list"
  currentClaim :: "string option"
  currentClaimData :: "claim option"
  currentDocuments :: "document list"
  currentClaimApproved :: bool
  currentDocId :: "string option"
  approve_disabled :: bool
  reject_disabled :: bool
  actions_displayed :: bool
  viewer_open :: bool
  toasts :: "(string \<times> string \<times> string) list"
  requests :: "request list"

record backend =
  auth_user :: "string option"
  document_update_fails :: bool
  claim_update_fails :: bool
  now :: string

definition notify :: "string \<Rightarrow> string \<Rightarrow> string \<Rightarrow> portal \<Rightarrow> portal" where
  "notify kind title message st = st\<lparr>toasts := toasts st @ [(kind, title, message)]\<rparr>"

definition showError :: "string \<Rightarrow> portal \<Rightarrow> portal" where
  "showError message st = notify ''error'' ''Error'' message st"

definition showSuccess :: "string \<Rightarrow> portal \<Rightarrow> portal" where
  "showSuccess message st = notify ''success'' ''Success'' message st"

text \<open>
  \<open>from('claims').update(f).eq('id', i)\<close> and \<open>from('documents').update(f).eq('id', i)\<close>
  when the backend applies them.
\<close>

definition update_claim :: "string \<Rightarrow> (claim \<Rightarrow> claim) \<Rightarrow> portal \<Rightarrow> portal" where
  "update_claim i f st =
     st\<lparr>db_claims := map (\<lambda>r. if claim_id r = i then f r else r) (db_claims st),
        requests := requests st @ [UpdateClaim i]\<rparr>"

definition update_document :: "string \<Rightarrow> (document \<Rightarrow> document) \<Rightarrow> portal \<Rightarrow> portal" where
  "update_document i f st =
     st\<lparr>db_documents := map (\<lambda>d. if doc_id d = i then f d else d) (db_documents st),
        requests := requests st @ [UpdateDocument i]\<rparr>"

text \<open>
  An update of a claim whose result the handler does not read, or reads only to log it:
  the request is sent, and the row changes when the backend applies it.
\<close>

definition write_claim :: "backend \<Rightarrow> string \<Rightarrow> (claim \<Rightarrow> claim) \<Rightarrow> portal \<Rightarrow> portal" where
  "write_claim be i f st =
     (if claim_update_fails be then st\<lparr>requests := requests st @ [UpdateClaim i]\<rparr>
      else update_claim i f st)"

text \<open>\<open>select(...).eq('id', i).single()\<close>: the row when there is exactly one.\<close>

definition select_single :: "string \<Rightarrow> claim list \<Rightarrow> claim option" where
  "select_single i rows =
     (case filter (\<lambda>r. claim_id r = i) rows of [r] \<Rightarrow> Some r | _ \<Rightarrow> None)"

text \<open>
  \<open>currentDocuments[docIndex] = {...currentDocuments[docIndex], ...updateData}\<close> with
  \<open>docIndex = currentDocuments.findIndex(p)\<close>: the first document that matches is
  replaced, and nothing happens when none does. \<open>findIndex\<close> gives \<open>-1\<close> when no
  element matches.
\<close>

fun replace_first :: "('a \<Rightarrow> bool) \<Rightarrow> ('a \<Rightarrow> 'a) \<Rightarrow> 'a list \<Rightarrow> 'a list" where
  "replace_first p f [] = []"
| "replace_first p f (x # xs) = (if p x then f x # xs else x # replace_first p f xs)"

definition update_local :: "string \<Rightarrow> (document \<Rightarrow> document) \<Rightarrow> portal \<Rightarrow> portal" where
  "update_local i f st =
     st\<lparr>currentDocuments := replace_first (\<lambda>doc. doc_id doc = i) f (currentDocuments st)\<rparr>"

fun findIndex :: "('a \<Rightarrow> bool) \<Rightarrow> 'a list \<Rightarrow> int" where
  "findIndex p [] = - 1"
| "findIndex p (x # xs) =
     (if p x then 0 else (let i = findIndex p xs in if i < 0 then - 1 else i + 1))"

subsection \<open>The row of the decision buttons and the document viewer\<close>

text \<open>
  The two statements that both portals repeat: the row is hidden, or it is shown again
  when a claim is open and not view-only
  (\<open>if (currentClaim && !currentClaimApproved) row.style.display = 'flex'\<close>).
\<close>

definition hide_actions :: "portal \<Rightarrow> portal" where
  "hide_actions st = st\<lparr>actions_displayed := False\<rparr>"

definition restore_actions :: "portal \<Rightarrow> portal" where
  "restore_actions st =
     (if truthy_str (currentClaim st) \<and> \<not> currentClaimApproved st
      then st\<lparr>actions_displayed := True\<rparr> else st)"

definition closeDocumentViewer :: "portal \<Rightarrow> portal" where
  "closeDocumentViewer st = restore_actions (st\<lparr>viewer_open := False\<rparr>)"

definition openRejectionModal :: "portal \<Rightarrow> portal" where
  "openRejectionModal st =
     (if \<not> truthy_str (currentClaim st) then showError ''Please select a claim first'' st
      else hide_actions st)"

definition closeRejectionModal :: "portal \<Rightarrow> portal" where
  "closeRejectionModal st = restore_actions st"

text \<open>
  The end of \<open>handleDocumentDecision\<close> in both portals: on the last document the viewer
  is closed and the row is shown again; otherwise the move to the next document is
  deferred.
\<close>

definition after_decision :: "string \<Rightarrow> portal \<Rightarrow> portal" where
  "after_decision docId st =
     (let currentIndex = findIndex (\<lambda>d. doc_id d = docId) (currentDocuments st)
      in if currentIndex < int (length (currentDocuments st)) - 1 then st
         else restore_actions (st\<lparr>viewer_open := False\<rparr>))"

subsection \<open>Car-company portal\<close>

text \<open>
  \<open>updateDocumentStats(documents)\<close> as far as the row goes, and
  \<open>setDecisionButtonsState(claim)\<close> on the buttons of the page.
\<close>

definition car_updateDocumentStats :: "portal \<Rightarrow> portal" where
  "car_updateDocumentStats st =
     (let isClaimOpen = truthy_str (currentClaim st); isModalOpen = viewer_open st
      in st\<lparr>actions_displayed := (isClaimOpen \<and> \<not> currentClaimApproved st \<and> \<not> isModalOpen)\<rparr>)"

definition car_setDecisionButtonsState :: "claim option \<Rightarrow> portal \<Rightarrow> portal" where
  "car_setDecisionButtonsState claim st =
     (let buttons = setDecisionButtonsState (currentDocuments st) claim
      in st\<lparr>approve_disabled := approveBtn_disabled buttons,
            reject_disabled := rejectBtn_disabled buttons\<rparr>)"

text \<open>
  \<open>applyApprovedState(claim)\<close>: the page is view-only when the claim is flagged approved
  or its car-company status is rejected (of the three names read for the flag,
  \<open>is_approved_by_car_company\<close> is the column the portal writes).
\<close>

definition car_applyApprovedState :: "claim \<Rightarrow> portal \<Rightarrow> portal" where
  "car_applyApprovedState claim st =
     (let approved = truthy_bool (is_approved_by_car_company claim);
          rejected = (car_company_status claim = Some ''rejected'');
          st1 = st\<lparr>currentClaimApproved := (approved \<or> rejected)\<rparr>
      in if approved then hide_actions st1
         else if rejected then hide_actions st1
         else if \<not> viewer_open st1 then st1\<lparr>actions_displayed := True\<rparr>
         else st1)"

text \<open>
  \<open>loadClaimDocuments(claimId)\<close>: the claim becomes the open claim and its documents of
  a car-company type become \<open>currentDocuments\<close>. The select of the documents is taken
  to succeed.
\<close>

definition car_loadClaimDocuments :: "string \<Rightarrow> portal \<Rightarrow> portal" where
  "car_loadClaimDocuments claimId st =
     (case select_single claimId (db_claims st) of
        None \<Rightarrow> showError ''Failed to load claim details'' st
      | Some claim \<Rightarrow>
          let isApproved = (car_company_status claim = Some ''approved'');
              isRejected = (car_company_status claim = Some ''rejected'');
              st1 = st\<lparr>currentClaim := Some (claim_id claim),
                       currentClaimData := Some claim,
                       currentClaimApproved := (isApproved \<or> isRejected)\<rparr>;
              st2 = st1\<lparr>currentDocuments :=
                          filter (\<lambda>d. doc_claim_id d = claimId \<and>
                                       doc_type d \<in> set car_CAR_COMPANY_DOCUMENT_TYPES)
                            (db_documents st1)\<rparr>;
              st3 = car_updateDocumentStats st2;
              st4 = car_setDecisionButtonsState (Some claim) st3
          in car_applyApprovedState claim st4)"

definition car_viewClaimDocuments :: "string \<Rightarrow> portal \<Rightarrow> portal" where
  "car_viewClaimDocuments claimId st =
     car_loadClaimDocuments claimId (st\<lparr>currentClaim := Some claimId\<rparr>)"

text \<open>
  \<open>viewDocument(documentId)\<close>: the document is looked up in \<open>currentDocuments\<close>, the row
  is hidden, the id is stored on the viewer for the handlers, and the viewer opens.
\<close>

definition car_viewDocument :: "string \<Rightarrow> portal \<Rightarrow> portal" where
  "car_viewDocument documentId st =
     (case find (\<lambda>doc. doc_id doc = documentId) (currentDocuments st) of
        None \<Rightarrow> showError ''Document not found'' st
      | Some doc \<Rightarrow>
          (hide_actions st)\<lparr>currentDocId := Some documentId, viewer_open := True\<rparr>)"

definition car_updateData :: "backend \<Rightarrow> bool \<Rightarrow> string \<Rightarrow> document \<Rightarrow> document" where
  "car_updateData be isVerified user d =
     (if isVerified
      then d\<lparr>verified_by_car_company := Some isVerified,
             car_company_verified_by := Some user,
             car_company_verification_date := Some (now be),
             car_company_verification_notes := None\<rparr>
      else d\<lparr>verified_by_car_company := Some isVerified,
             car_company_verified_by := Some user,
             car_company_verification_date := None\<rparr>)"

definition car_clear_approval :: "claim \<Rightarrow> claim" where
  "car_clear_approval r = r\<lparr>is_approved_by_car_company := Some False,
                              car_company_approval_date := None\<rparr>"

text \<open>The safety guard of \<open>handleDocumentDecision\<close> against an automatic approval.\<close>

definition car_safety_guard :: "backend \<Rightarrow> portal \<Rightarrow> portal" where
  "car_safety_guard be st =
     (let allDocsVerified = (length (currentDocuments st) > 0 \<and>
            list_all (\<lambda>d. truthy_bool (verified_by_car_company d)) (currentDocuments st))
      in if truthy_str (currentClaim st) \<and> allDocsVerified
         then (case select_single (the (currentClaim st)) (db_claims st) of
                 None \<Rightarrow> st
               | Some claimRow \<Rightarrow>
                   let isAutoApproved = (is_approved_by_car_company claimRow = Some True \<or>
                                         car_company_status claimRow = Some ''approved'');
                       globalStatus = toLowerCase (case status claimRow of None \<Rightarrow> [] | Some s \<Rightarrow> s)
                   in if isAutoApproved \<and> globalStatus \<noteq> ''submitted'' \<and> globalStatus \<noteq> ''approved''
                      then write_claim be (the (currentClaim st))
                             (\<lambda>r. r\<lparr>is_approved_by_car_company := Some False,
                                     car_company_status := Some ''pending''\<rparr>) st
                      else st)
         else st)"

text \<open>
  The refresh of the decision buttons in \<open>handleDocumentDecision\<close>: the claim is read
  again and handed to \<open>setDecisionButtonsState\<close>.
\<close>

definition car_refresh_buttons :: "portal \<Rightarrow> portal" where
  "car_refresh_buttons st =
     (if truthy_str (currentClaim st)
      then (case select_single (the (currentClaim st)) (db_claims st) of
              None \<Rightarrow> st
            | Some freshClaim \<Rightarrow> car_setDecisionButtonsState (Some freshClaim) st)
      else st)"

definition car_handleDocumentDecision :: "backend \<Rightarrow> string \<Rightarrow> portal \<Rightarrow> portal" where
  "car_handleDocumentDecision be decision st =
     (if currentClaimApproved st
      then notify ''error'' ''Error'' ''Claim is approved. Documents are view-only.'' st
      else if \<not> truthy_str (currentDocId st) then st
      else let docId = the (currentDocId st); isVerified = (decision = ''verify'')
           in case auth_user be of
                None \<Rightarrow> notify ''error'' ''Error'' ''User session expired. Please login again.'' st
              | Some user \<Rightarrow>
                  if document_update_fails be
                  then notify ''error'' ''Error'' ''Failed to save verification status''
                         (st\<lparr>requests := requests st @ [UpdateDocument docId]\<rparr>)
                  else let st1 = update_document docId (car_updateData be isVerified user) st;
                           st2 = update_local docId (car_updateData be isVerified user) st1;
                           st3 = (if \<not> isVerified \<and> truthy_str (currentClaim st2)
                                  then write_claim be (the (currentClaim st2)) car_clear_approval st2
                                  else st2);
                           st4 = car_safety_guard be st3;
                           st5 = car_updateDocumentStats (hide_actions st4);
                           st6 = notify ''success'' ''Success''
                                   (if isVerified then ''Document verified successfully!''
                                    else ''Document verification removed'') st5;
                           st7 = car_refresh_buttons st6;
                           st8 = hide_actions st7
                       in after_decision docId st8)"

text \<open>
  \<open>confirmDocumentRejection\<close>, with what the reason select and the free text field
  hold. It redraws the counters and the cards; it does not call
  \<open>setDecisionButtonsState\<close>. On the last document it opens the same document again.
\<close>

definition car_reject_update :: "string \<Rightarrow> document \<Rightarrow> document" where
  "car_reject_update rejectionNotes d =
     d\<lparr>verified_by_car_company := Some False,
       car_company_verification_date := None,
       car_company_verification_notes := Some rejectionNotes\<rparr>"

definition car_confirmDocumentRejection :: "backend \<Rightarrow> string \<Rightarrow> string \<Rightarrow> portal \<Rightarrow> portal" where
  "car_confirmDocumentRejection be reason otherReasonText st =
     (if reason = [] then showError ''Please select a rejection reason'' st
      else if reason = ''others'' \<and> trim otherReasonText = []
      then showError ''Please provide a specific reason'' st
      else let rejectionNotes = (if reason = ''others'' then ''Other: '' @ trim otherReasonText
                                 else reason)
           in if \<not> truthy_str (currentDocId st) then st
              else let docId = the (currentDocId st)
                   in if document_update_fails be
                      then showError ''Failed to reject document''
                             (st\<lparr>requests := requests st @ [UpdateDocument docId]\<rparr>)
                      else let st1 = update_document docId (car_reject_update rejectionNotes) st;
                               st2 = update_local docId (car_reject_update rejectionNotes) st1;
                               st3 = (if truthy_str (currentClaim st2)
                                      then write_claim be (the (currentClaim st2)) car_clear_approval st2
                                      else st2);
                               st4 = car_updateDocumentStats st3;
                               st5 = showSuccess ''Document rejected successfully!'' st4;
                               currentIndex = findIndex (\<lambda>d. doc_id d = docId) (currentDocuments st5)
                           in if currentIndex < int (length (currentDocuments st5)) - 1 then st5
                              else car_viewDocument docId st5)"

text \<open>
  \<open>decideClaim(decision, notes)\<close>. The notification is sent from a function that runs
  beside the update and first reads the owner of the claim.
\<close>

definition car_decision_update :: "backend \<Rightarrow> string \<Rightarrow> string \<Rightarrow> claim \<Rightarrow> claim" where
  "car_decision_update be decision notes r =
     (let with_notes = (\<lambda>r. if notes \<noteq> [] then r\<lparr>car_company_approval_notes := Some notes\<rparr> else r)
      in if decision = ''approved''
         then with_notes (r\<lparr>car_company_status := Some ''approved'',
                            is_approved_by_car_company := Some True,
                            car_company_approval_date := Some (now be),
                            approved_at := Some (now be)\<rparr>)
         else if decision = ''rejected''
         then with_notes (r\<lparr>car_company_status := Some ''rejected'',
                            is_approved_by_car_company := Some False,
                            status := Some ''rejected'',
                            car_company_approval_date := None,
                            rejected_at := Some (now be)\<rparr>)
         else if decision = ''under_review''
         then with_notes (r\<lparr>status := Some ''under_review''\<rparr>)
         else r)"

definition car_decision_notification :: "string \<Rightarrow> string \<Rightarrow> portal \<Rightarrow> request list" where
  "car_decision_notification decision notes st =
     (case select_single (the (currentClaim st)) (db_claims st) of
        None \<Rightarrow> []
      | Some claimData \<Rightarrow>
          if \<not> truthy_str (user_id claimData) then []
          else let userId = the (user_id claimData);
                   claimNumber = (if truthy_str (claim_number claimData)
                                  then the (claim_number claimData) else the (currentClaim st))
               in if decision = ''approved''
                  then [SendNotification userId ''Claim Approved''
                          (''Your claim '' @ claimNumber @ '' has been approved by the Car Company.'')
                          ''approved'']
                  else if decision = ''rejected''
                  then [SendNotification userId ''Claim Rejected''
                          (if notes \<noteq> []
                           then ''Your claim '' @ claimNumber @ '' has been rejected by the Car Company. ''
                                @ [CHR 0x0A, CHR 0x0A] @ ''Reason: '' @ [CHR 0x0A] @ notes
                           else ''Your claim '' @ claimNumber
                                @ '' has been rejected by the Car Company. Please contact support for details.'')
                          ''rejected'']
                  else if decision = ''under_review''
                  then [SendNotification userId ''Claim Under Review''
                          (''Your claim '' @ claimNumber
                           @ '' is marked as Under Review by the Car Company. We will get back to you soon.'')
                          ''review'']
                  else [])"

definition decision_message :: "string \<Rightarrow> string" where
  "decision_message decision =
     (if decision = ''approved'' then ''Claim approved''
      else if decision = ''rejected'' then ''Claim rejected''
      else ''Claim marked as Under Review'')"

definition car_decideClaim :: "backend \<Rightarrow> string \<Rightarrow> string \<Rightarrow> portal \<Rightarrow> portal" where
  "car_decideClaim be decision notes st =
     (if \<not> truthy_str (currentClaim st) then showError ''No claim selected'' st
      else let sent = car_decision_notification decision notes st
           in if claim_update_fails be
              then showError ''Failed to update claim status''
                     (st\<lparr>requests := requests st @ [UpdateClaim (the (currentClaim st))] @ sent\<rparr>)
              else let st1 = update_claim (the (currentClaim st))
                               (car_decision_update be decision notes) st
                   in showSuccess (decision_message decision)
                        (hide_actions (st1\<lparr>requests := requests st1 @ sent\<rparr>)))"

text \<open>
  The click handler that \<open>openRejectionModal\<close> puts on the confirm button, with
  what the \<open>rejectionNotes\<close> field holds; and the click handler that
  \<open>openApprovalConfirm\<close> puts on the confirm button of the approval.
\<close>

definition car_confirmReject :: "backend \<Rightarrow> string \<Rightarrow> portal \<Rightarrow> portal" where
  "car_confirmReject be rejectionNotes st =
     (let notes = trim rejectionNotes
      in if notes = [] then showError ''Please provide a reason for rejection'' st
         else car_decideClaim be ''rejected'' notes (closeRejectionModal st))"

definition car_confirmApprove :: "backend \<Rightarrow> portal \<Rightarrow> portal" where
  "car_confirmApprove be st = car_decideClaim be ''approved'' [] st"

subsection \<open>Insurance portal\<close>

text \<open>
  \<open>updateApprovalButtonStatus(insuranceDocuments)\<close> on the controls of the page, and
  \<open>applyApprovedState()\<close> as far as the row goes.
\<close>

definition ins_updateApprovalButtonStatus :: "document list \<Rightarrow> portal \<Rightarrow> portal" where
  "ins_updateApprovalButtonStatus insuranceDocuments st =
     (let controls = updateApprovalButtonStatus (currentClaimApproved st) (viewer_open st)
                       insuranceDocuments
      in st\<lparr>approve_disabled := approveClaimBtn_disabled controls,
            actions_displayed := approvalActionsRow_displayed controls\<rparr>)"

definition ins_applyApprovedState :: "portal \<Rightarrow> portal" where
  "ins_applyApprovedState st =
     (let approved = (currentClaimApproved st \<and>
            (case currentClaimData st of None \<Rightarrow> False | Some c \<Rightarrow> status c = Some ''approved''));
          rejected = (case currentClaimData st of None \<Rightarrow> False
                      | Some c \<Rightarrow> status c = Some ''rejected'')
      in if approved then hide_actions st
         else if rejected then hide_actions st
         else st)"

text \<open>
  \<open>loadClaimDocuments(claimId)\<close>: the claim is view-only when its \<open>status\<close> is approved
  or rejected, all documents of the claim become \<open>currentDocuments\<close>, and those of an
  insurance type are handed to \<open>updateApprovalButtonStatus\<close>. The select of the
  documents is taken to succeed.
\<close>

definition ins_loadClaimDocuments :: "string \<Rightarrow> portal \<Rightarrow> portal" where
  "ins_loadClaimDocuments claimId st =
     (case select_single claimId (db_claims st) of
        None \<Rightarrow> showError ''Failed to load claim details'' st
      | Some claim \<Rightarrow>
          let isApproved = (status claim = Some ''approved'');
              isRejected = (status claim = Some ''rejected'');
              st1 = st\<lparr>currentClaimData := Some claim,
                       currentClaimApproved := (isApproved \<or> isRejected)\<rparr>;
              st2 = st1\<lparr>currentDocuments :=
                          filter (\<lambda>d. doc_claim_id d = claimId) (db_documents st1)\<rparr>;
              insuranceDocuments =
                filter (\<lambda>doc. doc_type doc \<in> set INSURANCE_DOCUMENT_TYPES) (currentDocuments st2);
              st3 = ins_updateApprovalButtonStatus insuranceDocuments st2
          in ins_applyApprovedState st3)"

text \<open>
  \<open>viewClaimDocuments(claimId)\<close> on the page: the claim becomes the open claim, the
  claim is selected with its documents for the test above, and the documents are loaded
  when the test passes.
\<close>

definition ins_viewClaimDocuments_page :: "string \<Rightarrow> portal \<Rightarrow> portal" where
  "ins_viewClaimDocuments_page claimId st =
     (let st1 = st\<lparr>currentClaim := Some claimId\<rparr>;
          reply = map_option
                    (\<lambda>c. claim.extend c
                           (claim_row.fields
                              (Some (filter (\<lambda>d. doc_claim_id d = claimId) (db_documents st1)))))
                    (select_single claimId (db_claims st1))
      in case ins_viewClaimDocuments reply of
           ShowError message \<Rightarrow> showError message st1
         | Thrown \<Rightarrow> st1
         | Shown ok \<Rightarrow> ins_loadClaimDocuments claimId st1)"

text \<open>
  \<open>viewDocument(documentId, canVerify)\<close>: the row is hidden and the viewer opens; the
  id is stored on the viewer only when the document can be verified and the claim is not
  view-only.
\<close>

definition ins_viewDocument :: "string \<Rightarrow> bool \<Rightarrow> portal \<Rightarrow> portal" where
  "ins_viewDocument documentId canVerify st =
     (case find (\<lambda>d. doc_id d = documentId) (currentDocuments st) of
        None \<Rightarrow> showError ''Document not found'' st
      | Some doc \<Rightarrow>
          let st1 = hide_actions st;
              st2 = (if canVerify \<and> \<not> currentClaimApproved st1
                     then st1\<lparr>currentDocId := Some documentId\<rparr> else st1)
          in st2\<lparr>viewer_open := True\<rparr>)"

definition ins_updateData :: "backend \<Rightarrow> bool \<Rightarrow> string \<Rightarrow> document \<Rightarrow> document" where
  "ins_updateData be isVerified user d =
     (if isVerified
      then d\<lparr>verified_by_insurance_company := Some isVerified,
             insurance_verified_by := Some user,
             insurance_verification_date := Some (now be),
             insurance_verification_notes := None\<rparr>
      else d\<lparr>verified_by_insurance_company := Some isVerified,
             insurance_verified_by := Some user,
             insurance_verification_date := None\<rparr>)"

definition ins_clear_approval :: "claim \<Rightarrow> claim" where
  "ins_clear_approval r = r\<lparr>is_approved_by_insurance_company := Some False,
                              insurance_company_approval_date := None\<rparr>"

text \<open>The redraw of both handlers: the documents of an insurance type set the controls.\<close>

definition ins_refresh_buttons :: "portal \<Rightarrow> portal" where
  "ins_refresh_buttons st =
     (let insuranceDocuments =
            filter (\<lambda>doc. doc_type doc \<in> set INSURANCE_DOCUMENT_TYPES) (currentDocuments st)
      in ins_updateApprovalButtonStatus insuranceDocuments st)"

definition ins_handleDocumentDecision :: "backend \<Rightarrow> string \<Rightarrow> portal \<Rightarrow> portal" where
  "ins_handleDocumentDecision be decision st =
     (if currentClaimApproved st
      then notify ''error'' ''Error'' ''Claim is approved. Documents are view-only.'' st
      else if \<not> truthy_str (currentDocId st) then st
      else let docId = the (currentDocId st); isVerified = (decision = ''verify'')
           in case auth_user be of
                None \<Rightarrow> notify ''error'' ''Error'' ''User session expired. Please login again.'' st
              | Some user \<Rightarrow>
                  if document_update_fails be
                  then notify ''error'' ''Error'' ''Failed to save verification status''
                         (st\<lparr>requests := requests st @ [UpdateDocument docId]\<rparr>)
                  else let st1 = update_document docId (ins_updateData be isVerified user) st;
                           st2 = (if \<not> isVerified \<and> truthy_str (currentClaim st1)
                                  then write_claim be (the (currentClaim st1)) ins_clear_approval st1
                                  else st1);
                           st3 = update_local docId (ins_updateData be isVerified user) st2;
                           st4 = ins_refresh_buttons (hide_actions st3);
                           st5 = notify ''success'' ''Success''
                                   (if isVerified then ''Document verified successfully!''
                                    else ''Document verification removed'') st4;
                           st6 = hide_actions st5
                       in after_decision docId st6)"

definition ins_reject_update :: "string \<Rightarrow> document \<Rightarrow> document" where
  "ins_reject_update rejectionNotes d =
     d\<lparr>verified_by_insurance_company := Some False,
       insurance_verification_date := None,
       insurance_verification_notes := Some rejectionNotes\<rparr>"

definition ins_confirmDocumentRejection :: "backend \<Rightarrow> string \<Rightarrow> string \<Rightarrow> portal \<Rightarrow> portal" where
  "ins_confirmDocumentRejection be reason otherReasonText st =
     (if reason = [] then showError ''Please select a rejection reason'' st
      else if reason = ''others'' \<and> trim otherReasonText = []
      then showError ''Please provide a specific reason'' st
      else let rejectionNotes = (if reason = ''others'' then ''Other: '' @ trim otherReasonText
                                 else reason)
           in if \<not> truthy_str (currentDocId st) then st
              else let docId = the (currentDocId st)
                   in if document_update_fails be
                      then showError ''Failed to reject document''
                             (st\<lparr>requests := requests st @ [UpdateDocument docId]\<rparr>)
                      else let st1 = update_document docId (ins_reject_update rejectionNotes) st;
                               st2 = update_local docId (ins_reject_update rejectionNotes) st1;
                               st3 = (if truthy_str (currentClaim st2)
                                      then write_claim be (the (currentClaim st2)) ins_clear_approval st2
                                      else st2);
                               st4 = ins_refresh_buttons st3;
                               st5 = showSuccess ''Document rejected successfully!'' st4;
                               currentIndex = findIndex (\<lambda>d. doc_id d = docId) (currentDocuments st5)
                           in if currentIndex < int (length (currentDocuments st5)) - 1 then st5
                              else ins_viewDocument docId True st5)"

definition ins_decision_update :: "backend \<Rightarrow> string \<Rightarrow> string \<Rightarrow> claim \<Rightarrow> claim" where
  "ins_decision_update be decision notes r =
     (let with_notes = (\<lambda>r. if notes \<noteq> [] then r\<lparr>insurance_company_approval_notes := Some notes\<rparr> else r)
      in if decision = ''approved''
         then with_notes (r\<lparr>status := Some ''approved'',
                            is_approved_by_insurance_company := Some True,
                            insurance_company_approval_date := Some (now be),
                            approved_at := Some (now be)\<rparr>)
         else if decision = ''rejected''
         then with_notes (r\<lparr>status := Some ''rejected'',
                            is_approved_by_insurance_company := Some False,
                            rejected_at := Some (now be)\<rparr>)
         else if decision = ''under_review''
         then with_notes (r\<lparr>status := Some ''under_review''\<rparr>)
         else r)"

definition ins_decision_notification :: "string \<Rightarrow> string \<Rightarrow> portal \<Rightarrow> request list" where
  "ins_decision_notification decision notes st =
     (case select_single (the (currentClaim st)) (db_claims st) of
        None \<Rightarrow> []
      | Some claimData \<Rightarrow>
          if \<not> truthy_str (user_id claimData) then []
          else let userId = the (user_id claimData);
                   claimNumber = (case claim_number claimData of None \<Rightarrow> ''null'' | Some n \<Rightarrow> n)
               in if decision = ''approved''
                  then [SendNotification userId ''Claim Approved''
                          (''Your claim '' @ claimNumber @ '' has been approved by the Insurance Company.'')
                          ''approved'']
                  else if decision = ''rejected''
                  then [SendNotification userId ''Claim Rejected''
                          (if notes \<noteq> []
                           then ''Your claim '' @ claimNumber
                                @ '' has been rejected by the Insurance Company. ''
                                @ [CHR 0x0A, CHR 0x0A] @ ''Reason: '' @ [CHR 0x0A] @ notes
                           else ''Your claim '' @ claimNumber
                                @ '' has been rejected by the Insurance Company.'')
                          ''rejected'']
                  else if decision = ''under_review''
                  then [SendNotification userId ''Claim Under Review''
                          (''Your claim '' @ claimNumber
                           @ '' is marked as Under Review by the Insurance Company.'')
                          ''review'']
                  else [])"

definition ins_decideClaim :: "backend \<Rightarrow> string \<Rightarrow> string \<Rightarrow> portal \<Rightarrow> portal" where
  "ins_decideClaim be decision notes st =
     (if \<not> truthy_str (currentClaim st) then showError ''No claim selected'' st
      else let sent = ins_decision_notification decision notes st
           in if claim_update_fails be
              then showError ''Failed to update claim status''
                     (st\<lparr>requests := requests st @ [UpdateClaim (the (currentClaim st))] @ sent\<rparr>)
              else let st1 = update_claim (the (currentClaim st))
                               (ins_decision_update be decision notes) st
                   in showSuccess (decision_message decision)
                        (hide_actions (st1\<lparr>requests := requests st1 @ sent\<rparr>)))"

definition ins_confirmReject :: "backend \<Rightarrow> string \<Rightarrow> portal \<Rightarrow> portal" where
  "ins_confirmReject be rejectionNotes st =
     (let notes = trim rejectionNotes
      in if notes = [] then showError ''Please provide a reason for rejection'' st
         else ins_decideClaim be ''rejected'' notes (closeRejectionModal st))"

subsection \<open>Both reviewers\<close>

text \<open>
  The two reviewers with the columns of their tracks, and the two operations on the open
  document (a decision, or a rejection with its reason), to state a property of every
  handler at once.
\<close>

datatype reviewer = CarCompany | InsuranceCompany

datatype operation = Decision string | Rejection string string

fun perform :: "backend \<Rightarrow> reviewer \<Rightarrow> operation \<Rightarrow> portal \<Rightarrow> portal" where
  "perform be CarCompany (Decision decision) st = car_handleDocumentDecision be decision st"
| "perform be CarCompany (Rejection reason other) st = car_confirmDocumentRejection be reason other st"
| "perform be InsuranceCompany (Decision decision) st = ins_handleDocumentDecision be decision st"
| "perform be InsuranceCompany (Rejection reason other) st = ins_confirmDocumentRejection be reason other st"

fun verified_by :: "reviewer \<Rightarrow> document \<Rightarrow> bool option" where
  "verified_by CarCompany d = verified_by_car_company d"
| "verified_by InsuranceCompany d = verified_by_insurance_company d"

fun approval_flag :: "reviewer \<Rightarrow> claim \<Rightarrow> bool option" where
  "approval_flag CarCompany r = is_approved_by_car_company r"
| "approval_flag InsuranceCompany r = is_approved_by_insurance_company r"

fun approval_date :: "reviewer \<Rightarrow> claim \<Rightarrow> string option" where
  "approval_date CarCompany r = car_company_approval_date r"
| "approval_date InsuranceCompany r = insurance_company_approval_date r"

fun confirmReject :: "reviewer \<Rightarrow> backend \<Rightarrow> string \<Rightarrow> portal \<Rightarrow> portal" where
  "confirmReject CarCompany be rejectionNotes st = car_confirmReject be rejectionNotes st"
| "confirmReject InsuranceCompany be rejectionNotes st = ins_confirmReject be rejectionNotes st"

section \<open>Admin signup\<close>

record selection =
  dbRole :: string
  metadataRole :: string

definition normalizeSelection :: "string option \<Rightarrow> selection" where
  "normalizeSelection role =
     (if \<not> truthy_str role then \<lparr>dbRole = ''user'', metadataRole = ''user''\<rparr>
      else let metadataRole =
                 replace_runs hyphen ''-''
                   (replace_runs underscore_or_space ''-'' (toLowerCase (trim (the role))))
           in if sublist ''car'' metadataRole \<and> sublist ''company'' metadataRole
              then \<lparr>dbRole = ''car_company'', metadataRole = ''car-company''\<rparr>
              else if sublist ''insurance'' metadataRole \<and> sublist ''company'' metadataRole
              then \<lparr>dbRole = ''insurance_company'', metadataRole = ''insurance-company''\<rparr>
              else if sublist ''admin'' metadataRole
              then \<lparr>dbRole = ''admin'', metadataRole = ''admin''\<rparr>
              else \<lparr>dbRole = ''user'',
                    metadataRole = (if metadataRole \<noteq> [] then metadataRole else ''user'')\<rparr>)"

text \<open>
  \<open>validatePayload\<close> returns whether the fields pass, and shows a message when they do
  not: the second component is the message and its variant.
\<close>

definition validatePayload ::
    "string option \<Rightarrow> string option \<Rightarrow> string option \<Rightarrow> string option \<Rightarrow> bool \<times> (string \<times> string) option" where
  "validatePayload email password confirmPassword role =
     (if \<not> truthy_str email
      then (False, Some (''Enter an email address to continue.'', ''error''))
      else if \<not> truthy_str password \<or> length (the password) < 8
      then (False, Some (''Choose a password with at least 8 characters.'', ''error''))
      else if password \<noteq> confirmPassword
      then (False, Some (''Passwords do not match. Please re-enter and try again.'', ''error''))
      else if \<not> truthy_str role
      then (False, Some (''Select the portal role that should be assigned to this account.'', ''error''))
      else (True, None))"

text \<open>
  The fields of the form as the handler reads them with \<open>qs(id)?.value\<close>: \<open>None\<close> when
  the element is missing.
\<close>

record signup_form =
  adminEmail :: "string option"
  adminPassword :: "string option"
  confirmPassword :: "string option"
  portalRole :: "string option"

datatype signup_call = SignUp string string string string

record signup_outcome =
  messages :: "(string \<times> string) list"
  calls :: "signup_call list"

text \<open>
  \<open>handleSignup\<close> up to the call of \<open>auth.signUp\<close> with the email, the password, the
  role and the portal role; the progress message ends with an ellipsis sign in the
  source, written here as three dots.
\<close>

definition handleSignup :: "signup_form \<Rightarrow> signup_outcome" where
  "handleSignup form =
     (let email = map_option trim (adminEmail form);
          password = adminPassword form;
          confirm = confirmPassword form;
          selectedRole = portalRole form;
          sel = normalizeSelection selectedRole
      in case validatePayload email password confirm (Some (dbRole sel)) of
           (False, shown) \<Rightarrow> \<lparr>messages = (case shown of None \<Rightarrow> [] | Some m \<Rightarrow> [m]), calls = []\<rparr>
         | (True, _) \<Rightarrow>
             \<lparr>messages = [(''Creating account...'', ''info'')],
              calls = [SignUp (the email) (the password) (dbRole sel) (metadataRole sel)]\<rparr>)"

section \<open>Scenarios\<close>

text \<open>
  Concrete rows and states for the examples: a document as it is uploaded and as both
  companies have verified it, a claim as it is submitted and as both companies have
  approved it, the row of a list view, a backend that answers every call, the page that
  lists the claims, a review page on which a claim and one of its documents are open in
  the viewer, and the documents page of each portal on a submitted claim whose only
  document is verified.
\<close>

definition uploaded_document :: "string \<Rightarrow> string \<Rightarrow> string \<Rightarrow> document" where
  "uploaded_document i c t =
     \<lparr>doc_id = i, doc_claim_id = c, doc_type = t,
      verified_by_car_company = Some False,
      car_company_verification_notes = None,
      car_company_verification_date = None,
      car_company_verified_by = None,
      verified_by_insurance_company = Some False,
      insurance_verification_notes = None,
      insurance_verification_date = None,
      insurance_verified_by = None\<rparr>"

definition submitted_claim :: "string \<Rightarrow> claim" where
  "submitted_claim i =
     \<lparr>claim_id = i, claim_number = Some ''CLM-0001'', user_id = Some ''user-1'',
      status = Some ''submitted'',
      car_company_status = Some ''pending'',
      is_approved_by_car_company = Some False,
      car_company_approval_date = None,
      car_company_approval_notes = None,
      is_approved_by_insurance_company = Some False,
      insurance_company_approval_date = None,
      insurance_company_approval_notes = None,
      approved_at = None,
      rejected_at = None\<rparr>"

definition listed_claim :: "string \<Rightarrow> document list \<Rightarrow> claim_row" where
  "listed_claim i docs =
     \<lparr>claim_id = i, claim_number = Some ''CLM-0001'', user_id = Some ''user-1'',
      status = Some ''submitted'',
      car_company_status = Some ''pending'',
      is_approved_by_car_company = Some False,
      car_company_approval_date = None,
      car_company_approval_notes = None,
      is_approved_by_insurance_company = Some False,
      insurance_company_approval_date = None,
      insurance_company_approval_notes = None,
      approved_at = None,
      rejected_at = None,
      documents = Some docs\<rparr>"

definition answering_backend :: backend where
  "answering_backend =
     \<lparr>auth_user = Some ''reviewer-1'', document_update_fails = False,
      claim_update_fails = False, now = ''2025-01-01T00:00:00.000Z''\<rparr>"

definition claims_page :: "claim list \<Rightarrow> document list \<Rightarrow> portal" where
  "claims_page cs ds =
     \<lparr>db_claims = cs, db_documents = ds,
      currentClaim = None, currentClaimData = None, currentDocuments = [],
      currentClaimApproved = False, currentDocId = None,
      approve_disabled = False, reject_disabled = False,
      actions_displayed = False, viewer_open = False,
      toasts = [], requests = []\<rparr>"

definition review_page :: "claim \<Rightarrow> document \<Rightarrow> portal" where
  "review_page c d =
     \<lparr>db_claims = [c], db_documents = [d],
      currentClaim = Some (claim_id c), currentClaimData = Some c, currentDocuments = [d],
      currentClaimApproved = False, currentDocId = Some (doc_id d),
      approve_disabled = True, reject_disabled = False,
      actions_displayed = False, viewer_open = True,
      toasts = [], requests = []\<rparr>"

definition approved_claim :: "string \<Rightarrow> claim" where
  "approved_claim i =
     (submitted_claim i)
       \<lparr>car_company_status := Some ''approved'',
        is_approved_by_car_company := Some True,
        car_company_approval_date := Some ''2024-12-31T10:00:00.000Z'',
        is_approved_by_insurance_company := Some True,
        insurance_company_approval_date := Some ''2024-12-31T12:00:00.000Z''\<rparr>"

definition verified_document :: "string \<Rightarrow> string \<Rightarrow> string \<Rightarrow> document" where
  "verified_document i c t =
     (uploaded_document i c t)
       \<lparr>verified_by_car_company := Some True,
        car_company_verification_date := Some ''2024-12-30T10:00:00.000Z'',
        car_company_verified_by := Some ''reviewer-1'',
        verified_by_insurance_company := Some True,
        insurance_verification_date := Some ''2024-12-30T12:00:00.000Z'',
        insurance_verified_by := Some ''reviewer-2''\<rparr>"

definition car_documents_page :: portal where
  "car_documents_page =
     car_viewClaimDocuments ''c1''
       (claims_page [submitted_claim ''c1''] [verified_document ''d1'' ''c1'' ''lto_or''])"

definition ins_documents_page :: portal where
  "ins_documents_page =
     ins_viewClaimDocuments_page ''c1''
       (claims_page [submitted_claim ''c1''] [verified_document ''d1'' ''c1'' ''lto_or''])"

section \<open>Properties of the role normalisers\<close>

text \<open>
  A word without separator characters survives \<open>trim\<close> and the replacement of runs of
  separators, and \<open>trim\<close> commutes with \<open>toLowerCase\<close>.
\<close>

lemma replace_runs_free_prefix:
  "\<forall>c\<in>set w. \<not> cls c \<Longrightarrow> replace_runs cls r (w @ ss) = w @ replace_runs cls r ss"
  by (induction w) auto

lemma dropWhile_before_free:
  assumes "w \<noteq> []" and "\<forall>c\<in>set w. \<not> P c"
  shows "dropWhile P (ps @ w @ ss) = dropWhile P ps @ w @ ss"
proof (induction ps)
  case Nil
  from assms obtain x xs where "w = x # xs" by (cases w) auto
  with assms show ?case by simp
next
  case (Cons a ps)
  then show ?case by simp
qed

lemma sublist_replace_runs_aux:
  "w \<noteq> [] \<Longrightarrow> \<forall>c\<in>set w. \<not> cls c \<Longrightarrow> sublist w (replace_runs cls r (ps @ w @ ss))"
proof (induction cls r ps rule: replace_runs.induct)
  case (1 cls r)
  then show ?case by (simp add: replace_runs_free_prefix)
next
  case (2 cls r c cs)
  show ?case
  proof (cases "cls c")
    case True
    have "sublist w (replace_runs cls r (dropWhile cls cs @ w @ ss))"
      using 2 True by simp
    then have "sublist w (r @ replace_runs cls r (dropWhile cls (cs @ w @ ss)))"
      using 2(3,4) by (simp add: dropWhile_before_free sublist_append)
    then show ?thesis using True by simp
  next
    case False
    have "sublist w (replace_runs cls r (cs @ w @ ss))"
      using 2 False by simp
    then show ?thesis using False by (simp add: sublist_Cons_right)
  qed
qed

lemma sublist_replace_runs:
  assumes "w \<noteq> []" and "\<forall>c\<in>set w. \<not> cls c" and "sublist w s"
  shows "sublist w (replace_runs cls r s)"
proof -
  from assms(3) obtain ps ss where "s = ps @ w @ ss" by (auto simp: sublist_def)
  then show ?thesis using sublist_replace_runs_aux [OF assms(1,2)] by simp
qed

lemma sublist_dropWhile_free:
  assumes "w \<noteq> []" and "\<forall>c\<in>set w. \<not> P c" and "sublist w s"
  shows "sublist w (dropWhile P s)"
proof -
  from assms(3) obtain ps ss where "s = ps @ w @ ss" by (auto simp: sublist_def)
  then show ?thesis using dropWhile_before_free [OF assms(1,2)] by simp
qed

lemma sublist_trim:
  assumes "w \<noteq> []" and "\<forall>c\<in>set w. \<not> js_whitespace c" and "sublist w s"
  shows "sublist w (trim s)"
proof -
  have 1: "sublist w (dropWhile js_whitespace s)"
    using assms by (rule sublist_dropWhile_free)
  have "sublist (rev w) (dropWhile js_whitespace (rev (dropWhile js_whitespace s)))"
  proof (rule sublist_dropWhile_free)
    show "rev w \<noteq> []" using assms(1) by simp
    show "\<forall>c\<in>set (rev w). \<not> js_whitespace c" using assms(2) by simp
    show "sublist (rev w) (rev (dropWhile js_whitespace s))" using 1 by simp
  qed
  then show ?thesis by (simp add: trim_def sublist_rev_left)
qed

lemma js_whitespace_toLowerChar: "js_whitespace (toLowerChar c) = js_whitespace c"
proof -
  define n where "n = (of_char c :: nat)"
  show ?thesis
  proof (cases "(65 \<le> n \<and> n \<le> 90) \<or> (192 \<le> n \<and> n \<le> 222 \<and> n \<noteq> 215)")
    case True
    then have "(n + 32) mod 256 = n + 32" by auto
    then have "(of_char (char_of (n + 32)) :: nat) = n + 32" by simp
    with True show ?thesis
      by (auto simp: js_whitespace_def toLowerChar_def Let_def n_def [symmetric])
  next
    case False
    then show ?thesis by (auto simp: toLowerChar_def Let_def n_def [symmetric])
  qed
qed

lemma toLowerCase_trim: "toLowerCase (trim s) = trim (toLowerCase s)"
proof -
  have dw: "map toLowerChar (dropWhile js_whitespace xs) = dropWhile js_whitespace (map toLowerChar xs)" for xs
    by (induction xs) (simp_all add: js_whitespace_toLowerChar)
  have "map toLowerChar (rev (dropWhile js_whitespace (rev (dropWhile js_whitespace s)))) =
        rev (dropWhile js_whitespace (map toLowerChar (rev (dropWhile js_whitespace s))))"
    by (simp only: rev_map [symmetric] dw)
  also have "\<dots> = rev (dropWhile js_whitespace (rev (dropWhile js_whitespace (map toLowerChar s))))"
    by (simp only: rev_map [symmetric] dw)
  finally show ?thesis
    by (simp only: toLowerCase_def trim_def)
qed

text \<open>
  A role that contains \<open>car\<close> and \<open>company\<close>, in any case, in any order and with any
  separators around them, is normalised to \<open>car_company\<close> on the login page and in the
  portals.
\<close>

lemma login_normalizeRole_car_company:
  assumes "sublist ''car'' (toLowerCase s)" and "sublist ''company'' (toLowerCase s)"
  shows "login_normalizeRole (Some s) = Some ''car_company''"
proof -
  have ne: "s \<noteq> []" using assms(1) by (auto simp: toLowerCase_def)
  have a: "sublist ''car'' (replace_runs space_or_hyphen ''_'' (toLowerCase (trim s)))"
    unfolding toLowerCase_trim
    by (rule sublist_replace_runs [OF _ _ sublist_trim [OF _ _ assms(1)]])
       (simp_all add: space_or_hyphen_def js_whitespace_def)
  have b: "sublist ''company'' (replace_runs space_or_hyphen ''_'' (toLowerCase (trim s)))"
    unfolding toLowerCase_trim
    by (rule sublist_replace_runs [OF _ _ sublist_trim [OF _ _ assms(2)]])
       (simp_all add: space_or_hyphen_def js_whitespace_def)
  show ?thesis using ne a b by (simp add: login_normalizeRole_def truthy_str_def)
qed

lemma portal_normalizeRole_car_company:
  assumes "sublist ''car'' (toLowerCase s)" and "sublist ''company'' (toLowerCase s)"
  shows "portal_normalizeRole (Some s) = Some ''car_company''"
proof -
  have ne: "s \<noteq> []" using assms(1) by (auto simp: toLowerCase_def)
  have a: "sublist ''car'' (replace_runs space_or_hyphen ''_'' (trim (toLowerCase s)))"
    by (rule sublist_replace_runs [OF _ _ sublist_trim [OF _ _ assms(1)]])
       (simp_all add: space_or_hyphen_def js_whitespace_def)
  have b: "sublist ''company'' (replace_runs space_or_hyphen ''_'' (trim (toLowerCase s)))"
    by (rule sublist_replace_runs [OF _ _ sublist_trim [OF _ _ assms(2)]])
       (simp_all add: space_or_hyphen_def js_whitespace_def)
  show ?thesis using ne a b by (simp add: portal_normalizeRole_def truthy_str_def)
qed

text \<open>
  The result of the normalisers is one of the canonical roles, a key of the route table,
  or a name that every object inherits from \<open>Object.prototype\<close>.
\<close>

lemma js_get_truthy:
  "truthy_property (js_get obj key) \<Longrightarrow>
     key \<in> fst ` set obj \<or> key \<in> set object_prototype_properties"
  by (auto simp: js_get_def split: option.splits if_splits dest!: map_of_SomeD intro: rev_image_eqI)

lemma login_normalizeRole_range:
  assumes "login_normalizeRole role = Some x"
  shows "x \<in> {''car_company'', ''insurance_company'', ''admin''} \<union> fst ` set login_ROLE_ROUTES
           \<union> set object_prototype_properties"
  using assms js_get_truthy [of login_ROLE_ROUTES]
  by (auto simp: login_normalizeRole_def Let_def split: if_splits)

lemma portal_normalizeRole_range:
  assumes "portal_normalizeRole role = Some x"
  shows "x \<in> {''car_company'', ''insurance_company''} \<union> fst ` set portal_ROLE_ROUTES
           \<union> set object_prototype_properties"
  using assms js_get_truthy [of portal_ROLE_ROUTES]
  by (auto simp: portal_normalizeRole_def Let_def split: if_splits)

text \<open>
  Claim C8: a role with the tokens \<open>car\<close> and \<open>company\<close> is normalised to
  \<open>car_company\<close>, and every result is a canonical role, a key of the route table or
  null. The first half holds (the two lemmas above). The second half fails on the role
  \<open>constructor\<close>: reading \<open>ROLE_ROUTES['constructor']\<close> finds the constructor that
  the table inherits, which is truthy, so the normalisers of the login page and of the
  portals return \<open>constructor\<close>, which is neither a canonical role nor a key of the
  table.
\<close>

theorem normalizeRole_constructor:
  "login_normalizeRole (Some ''constructor'') = Some ''constructor'' \<and>
   portal_normalizeRole (Some ''constructor'') = Some ''constructor'' \<and>
   ''constructor'' \<notin> {''car_company'', ''insurance_company'', ''admin''} \<and>
   ''constructor'' \<notin> fst ` set login_ROLE_ROUTES \<and>
   ''constructor'' \<notin> fst ` set portal_ROLE_ROUTES"
  by (simp add: login_normalizeRole_def portal_normalizeRole_def truthy_str_def trim_def
        js_whitespace_def toLowerCase_def toLowerChar_def space_or_hyphen_def js_get_def
        login_ROLE_ROUTES_def portal_ROLE_ROUTES_def object_prototype_properties_def sublist_code)

section \<open>Properties of the approval controls\<close>

lemma approve_disabled_car:
  "approveBtn_disabled (setDecisionButtonsState docs claim) \<longleftrightarrow>
     \<not> (docs \<noteq> [] \<and> (\<forall>d \<in> set docs. truthy_bool (verified_by_car_company d))) \<or>
     (\<exists>c. claim = Some c \<and> truthy_bool (is_approved_by_car_company c))"
  by (cases claim) (auto simp: setDecisionButtonsState_def Let_def list_all_iff)

lemma approve_disabled_ins:
  "approveClaimBtn_disabled (updateApprovalButtonStatus a m docs) \<longleftrightarrow>
     \<not> (docs \<noteq> [] \<and> (\<forall>d \<in> set docs. truthy_bool (verified_by_insurance_company d)))"
  "approvalActionsRow_displayed (updateApprovalButtonStatus a m docs) \<longleftrightarrow> \<not> a \<and> \<not> m"
  by (auto simp: updateApprovalButtonStatus_def Let_def list_all_iff)



section \<open>Properties of the counters\<close>

text \<open>
  In the car-company portal the counters partition the documents of a car-company type:
  a document counts as rejected only when it is not verified.
\<close>

lemma car_counts_partition:
  "totalCarCompanyDocs (car_process docs) =
     verifiedCarCompanyDocs (car_process docs) + rejectedCarCompanyDocs (car_process docs)
       + pendingCarCompanyDocs (car_process docs)"
  by (simp add: car_process_def Let_def)

lemma length_two_filters:
  "length (filter P xs) + length (filter (\<lambda>x. \<not> P x \<and> Q x) xs) \<le> length xs"
  by (induction xs) auto

lemma car_counts_nonneg:
  "0 \<le> totalCarCompanyDocs (car_process docs)"
  "0 \<le> verifiedCarCompanyDocs (car_process docs)"
  "0 \<le> rejectedCarCompanyDocs (car_process docs)"
  "0 \<le> pendingCarCompanyDocs (car_process docs)"
proof -
  let ?xs = "filter (\<lambda>doc. doc_type doc \<in> set car_CAR_COMPANY_DOCUMENT_TYPES) docs"
  have "length (filter (\<lambda>doc. truthy_bool (verified_by_car_company doc)) ?xs)
      + length (filter (\<lambda>doc. \<not> truthy_bool (verified_by_car_company doc) \<and>
                               truthy_str (car_company_verification_notes doc)) ?xs) \<le> length ?xs"
    by (rule length_two_filters)
  then show "0 \<le> pendingCarCompanyDocs (car_process docs)"
    by (simp add: car_process_def Let_def)
qed (simp_all add: car_process_def Let_def)

text \<open>The same holds for every row that \<open>loadClaims\<close> hands to the table.\<close>

lemma car_loadClaims_counts:
  assumes "car_loadClaims reply = Shown rows" and "(c, n) \<in> set rows"
  shows "totalCarCompanyDocs n =
           verifiedCarCompanyDocs n + rejectedCarCompanyDocs n + pendingCarCompanyDocs n \<and>
         0 \<le> totalCarCompanyDocs n \<and> 0 \<le> verifiedCarCompanyDocs n \<and>
         0 \<le> rejectedCarCompanyDocs n \<and> 0 \<le> pendingCarCompanyDocs n"
proof -
  from assms obtain docs where "n = car_process docs"
    by (auto simp: car_loadClaims_def Let_def split: option.splits if_splits)
  then show ?thesis
    using car_counts_partition [of docs] car_counts_nonneg [of docs] by simp
qed

text \<open>
  In the insurance portal the total is the sum of the three other counters as well, but a
  document counts as rejected whenever it has a note.
\<close>

lemma ins_counts_sum:
  "totalInsuranceDocs (ins_process docs) =
     verifiedInsuranceDocs (ins_process docs) + rejectedInsuranceDocs (ins_process docs)
       + pendingInsuranceDocs (ins_process docs)"
  by (simp add: ins_process_def Let_def)

text \<open>
  Claim C4: the counters partition the relevant documents and none is negative, for every
  combination of verified flags and notes, in both portals. The insurance portal breaks it
  on a claim that it lists (its document is verified by the car company) whose document is
  verified by the insurance company and still has a rejection note of the insurance
  company: the document is counted as verified and as rejected, and the pending counter of
  the row is \<open>-1\<close>. The car-company portal counts a document that is verified by the
  car company and has a note of the car company once.
\<close>

theorem insurance_pending_negative:
  "ins_loadClaims
     (Some [listed_claim ''c1''
              [(verified_document ''d1'' ''c1'' ''lto_or'')
                 \<lparr>insurance_verification_notes := Some ''document_expired''\<rparr>]]) =
     Shown [(listed_claim ''c1''
               [(verified_document ''d1'' ''c1'' ''lto_or'')
                  \<lparr>insurance_verification_notes := Some ''document_expired''\<rparr>],
             \<lparr>totalInsuranceDocs = 1, verifiedInsuranceDocs = 1, rejectedInsuranceDocs = 1,
              pendingInsuranceDocs = - 1, readyForApproval = True\<rparr>)] \<and>
   car_loadClaims
     (Some [listed_claim ''c1''
              [(verified_document ''d1'' ''c1'' ''lto_or'')
                 \<lparr>car_company_verification_notes := Some ''document_expired''\<rparr>]]) =
     Shown [(listed_claim ''c1''
               [(verified_document ''d1'' ''c1'' ''lto_or'')
                  \<lparr>car_company_verification_notes := Some ''document_expired''\<rparr>],
             \<lparr>totalCarCompanyDocs = 1, verifiedCarCompanyDocs = 1, rejectedCarCompanyDocs = 0,
              pendingCarCompanyDocs = 0\<rparr>)]"
  by code_simp

section \<open>Properties of the insurance list\<close>









section \<open>Properties of the consistency sweep\<close>

lemma sweep_forEach_fst: "fst (sweep_forEach cs) = map (\<lambda>c. fst (sweep_claim c)) cs"
  by (induction cs) (simp_all add: split_beta)

lemma sweep_forEach_snd:
  "snd (sweep_forEach cs) = map claim_id (filter (\<lambda>c. snd (sweep_claim c)) cs)"
  by (induction cs) (simp_all add: split_beta)

lemma claimsToRevert_filter:
  "claimsToRevert cs = map claim_id (filter (\<lambda>c. snd (sweep_claim c)) cs)"
  by (simp add: claimsToRevert_def sweep_forEach_snd)

lemma update_in_Nil: "update_in [] f rows = rows"
  by (simp add: update_in_def)

lemma sweep_remote_update_in: "sweep_remote cs = update_in (claimsToRevert cs) revert_update cs"
  by (cases "claimsToRevert cs") (auto simp: sweep_remote_def update_in_def)

lemma snd_sweep_claim:
  "snd (sweep_claim c) =
     ((car_company_status c = Some ''approved'' \<or> is_approved_by_car_company c = Some True) \<and>
      (\<exists>d \<in> set (case documents c of None \<Rightarrow> [] | Some ds \<Rightarrow> ds).
         doc_type d \<in> set car_CAR_COMPANY_DOCUMENT_TYPES \<and>
         \<not> truthy_bool (verified_by_car_company d)))"
  by (cases "documents c")
     (auto simp: sweep_claim_def isApproved_def hasUnverifiedDocs_def list_ex_iff)

lemma not_reverted_again: "snd (sweep_claim (revert_update c)) = False"
  by (simp add: sweep_claim_def isApproved_def revert_update_def)

lemma in_claimsToRevert:
  "i \<in> set (claimsToRevert cs) \<longleftrightarrow> (\<exists>c \<in> set cs. claim_id c = i \<and> snd (sweep_claim c))"
  by (auto simp: claimsToRevert_filter)

lemma in_claimsToRevert_distinct:
  assumes "distinct (map claim_id cs)" and "c \<in> set cs"
  shows "claim_id c \<in> set (claimsToRevert cs) \<longleftrightarrow> snd (sweep_claim c)"
proof
  assume "claim_id c \<in> set (claimsToRevert cs)"
  then obtain c' where c': "c' \<in> set cs" "claim_id c' = claim_id c" "snd (sweep_claim c')"
    by (auto simp: in_claimsToRevert)
  from assms c'(1,2) have "c' = c"
    by (auto simp: distinct_map dest: inj_onD)
  with c'(3) show "snd (sweep_claim c)" by simp
next
  assume "snd (sweep_claim c)"
  with assms(2) show "claim_id c \<in> set (claimsToRevert cs)"
    by (auto simp: in_claimsToRevert)
qed

text \<open>
  Claim C2: the sweep reverts exactly the claims that are flagged approved and have a
  document of a car-company type that is not verified by the car company. In the remote
  table each of them gets the status pending, the flag false and no approval date, and
  every other claim is left as it was. The ids of the claims are those of a table with a
  primary key: no two rows share one.
\<close>

theorem sweep_reverts_exactly:
  assumes "distinct (map claim_id cs)"
  shows "sweep_remote cs =
     map (\<lambda>c. if (car_company_status c = Some ''approved'' \<or> is_approved_by_car_company c = Some True) \<and>
                  (\<exists>d \<in> set (case documents c of None \<Rightarrow> [] | Some ds \<Rightarrow> ds).
                     doc_type d \<in> set car_CAR_COMPANY_DOCUMENT_TYPES \<and>
                     \<not> truthy_bool (verified_by_car_company d))
               then c\<lparr>car_company_status := Some ''pending'',
                      is_approved_by_car_company := Some False,
                      car_company_approval_date := None\<rparr>
               else c) cs"
proof -
  have "update_in (claimsToRevert cs) revert_update cs =
        map (\<lambda>c. if snd (sweep_claim c) then revert_update c else c) cs"
    unfolding update_in_def
    by (rule map_cong [OF refl]) (simp add: in_claimsToRevert_distinct [OF assms])
  then show ?thesis
    by (simp only: sweep_remote_update_in snd_sweep_claim revert_update_def)
qed

text \<open>Two approved claims: the document of the first is not verified, that of the second is.\<close>

theorem sweep_reverts_exactly_witness:
  "distinct (map claim_id
     [(listed_claim ''c1'' [uploaded_document ''d1'' ''c1'' ''lto_or''])
        \<lparr>car_company_status := Some ''approved'', is_approved_by_car_company := Some True,
         car_company_approval_date := Some ''2024-12-31T10:00:00.000Z''\<rparr>,
      (listed_claim ''c2'' [(uploaded_document ''d2'' ''c2'' ''lto_or'')\<lparr>verified_by_car_company := Some True\<rparr>])
        \<lparr>car_company_status := Some ''approved'', is_approved_by_car_company := Some True,
         car_company_approval_date := Some ''2024-12-31T11:00:00.000Z''\<rparr>]) \<and>
   sweep_remote
     [(listed_claim ''c1'' [uploaded_document ''d1'' ''c1'' ''lto_or''])
        \<lparr>car_company_status := Some ''approved'', is_approved_by_car_company := Some True,
         car_company_approval_date := Some ''2024-12-31T10:00:00.000Z''\<rparr>,
      (listed_claim ''c2'' [(uploaded_document ''d2'' ''c2'' ''lto_or'')\<lparr>verified_by_car_company := Some True\<rparr>])
        \<lparr>car_company_status := Some ''approved'', is_approved_by_car_company := Some True,
         car_company_approval_date := Some ''2024-12-31T11:00:00.000Z''\<rparr>] =
     [listed_claim ''c1'' [uploaded_document ''d1'' ''c1'' ''lto_or''],
      (listed_claim ''c2'' [(uploaded_document ''d2'' ''c2'' ''lto_or'')\<lparr>verified_by_car_company := Some True\<rparr>])
        \<lparr>car_company_status := Some ''approved'', is_approved_by_car_company := Some True,
         car_company_approval_date := Some ''2024-12-31T11:00:00.000Z''\<rparr>]"
proof -
  let ?cs = "[(listed_claim ''c1'' [uploaded_document ''d1'' ''c1'' ''lto_or''])
        \<lparr>car_company_status := Some ''approved'', is_approved_by_car_company := Some True,
         car_company_approval_date := Some ''2024-12-31T10:00:00.000Z''\<rparr>,
      (listed_claim ''c2'' [(uploaded_document ''d2'' ''c2'' ''lto_or'')\<lparr>verified_by_car_company := Some True\<rparr>])
        \<lparr>car_company_status := Some ''approved'', is_approved_by_car_company := Some True,
         car_company_approval_date := Some ''2024-12-31T11:00:00.000Z''\<rparr>]"
  have d: "distinct (map claim_id ?cs)"
    by (simp add: listed_claim_def)
  show ?thesis
    using d sweep_reverts_exactly [OF d]
    by (simp add: listed_claim_def uploaded_document_def truthy_bool_def
          car_CAR_COMPANY_DOCUMENT_TYPES_def)
qed

text \<open>
  The local objects get the status and the flag; their approval date is left for the next
  load to fetch.
\<close>

lemma sweep_local_map: "sweep_local cs = map (\<lambda>c. fst (sweep_claim c)) cs"
  by (simp add: sweep_local_def sweep_forEach_fst)

lemma fst_sweep_claim_idem: "fst (sweep_claim (fst (sweep_claim c))) = fst (sweep_claim c)"
proof (cases "snd (sweep_claim c)")
  case True
  then have "fst (sweep_claim c) =
      c\<lparr>car_company_status := Some ''pending'', is_approved_by_car_company := Some False\<rparr>"
    by (simp add: sweep_claim_def split: if_splits)
  moreover have "\<not> isApproved
      (c\<lparr>car_company_status := Some ''pending'', is_approved_by_car_company := Some False\<rparr>)"
    by (simp add: isApproved_def)
  ultimately show ?thesis by (simp add: sweep_claim_def)
next
  case False
  then have "fst (sweep_claim c) = c"
    by (auto simp: sweep_claim_def split: if_splits)
  then show ?thesis by simp
qed

lemma sweep_local_idem: "sweep_local (sweep_local cs) = sweep_local cs"
  by (simp add: sweep_local_map fst_sweep_claim_idem)

lemma claimsToRevert_sweep_remote: "claimsToRevert (sweep_remote cs) = []"
proof -
  let ?ids = "claimsToRevert cs"
  have step: "\<not> snd (sweep_claim (if claim_id c \<in> set ?ids then revert_update c else c))"
    if "c \<in> set cs" for c
  proof (cases "claim_id c \<in> set ?ids")
    case True
    then show ?thesis by (simp add: not_reverted_again)
  next
    case False
    with that have "\<not> snd (sweep_claim c)" by (auto simp: in_claimsToRevert)
    with False show ?thesis by simp
  qed
  have "filter (\<lambda>r. snd (sweep_claim r))
          (map (\<lambda>c. if claim_id c \<in> set ?ids then revert_update c else c) cs) = []"
    using step by (simp only: filter_empty_conv set_map) blast
  then show ?thesis
    by (simp only: sweep_remote_update_in claimsToRevert_filter update_in_def list.map)
qed

lemma sweep_remote_idem: "sweep_remote (sweep_remote cs) = sweep_remote cs"
  by (subst sweep_remote_update_in) (simp add: claimsToRevert_sweep_remote update_in_Nil)

lemma claimsToRevert_set_cong:
  "set cs = set cs' \<Longrightarrow> set (claimsToRevert cs) = set (claimsToRevert cs')"
  by (simp add: claimsToRevert_filter)

text \<open>
  Claim C6: the sweep is idempotent. Run on the table it has left, it changes nothing and
  reverts no claim, and the same holds for the local objects; and the set of ids it
  reverts depends on the rows only, not on their order.
\<close>

theorem sweep_idempotent:
  "sweep_remote (sweep_remote cs) = sweep_remote cs \<and>
   claimsToRevert (sweep_remote cs) = [] \<and>
   sweep_local (sweep_local cs) = sweep_local cs \<and>
   (set cs = set cs' \<longrightarrow> set (claimsToRevert cs) = set (claimsToRevert cs'))"
  using sweep_remote_idem [of cs] claimsToRevert_sweep_remote [of cs] sweep_local_idem [of cs]
    claimsToRevert_set_cong [of cs cs']
  by blast

text \<open>The same two rows in either order.\<close>

theorem sweep_idempotent_witness:
  "set [(listed_claim ''c1'' [uploaded_document ''d1'' ''c1'' ''lto_or''])
          \<lparr>car_company_status := Some ''approved''\<rparr>,
        listed_claim ''c2'' []] =
     set [listed_claim ''c2'' [],
          (listed_claim ''c1'' [uploaded_document ''d1'' ''c1'' ''lto_or''])
            \<lparr>car_company_status := Some ''approved''\<rparr>] \<and>
   set (claimsToRevert
          [(listed_claim ''c1'' [uploaded_document ''d1'' ''c1'' ''lto_or''])
             \<lparr>car_company_status := Some ''approved''\<rparr>,
           listed_claim ''c2'' []]) =
     set (claimsToRevert
            [listed_claim ''c2'' [],
             (listed_claim ''c1'' [uploaded_document ''d1'' ''c1'' ''lto_or''])
               \<lparr>car_company_status := Some ''approved''\<rparr>])"
proof -
  let ?a = "(listed_claim ''c1'' [uploaded_document ''d1'' ''c1'' ''lto_or''])
              \<lparr>car_company_status := Some ''approved''\<rparr>"
  let ?b = "listed_claim ''c2'' []"
  have s: "set [?a, ?b] = set [?b, ?a]"
    by auto
  from s sweep_idempotent [of "[?a, ?b]" "[?b, ?a]"]
  show ?thesis by blast
qed

section \<open>Properties of the review handlers\<close>

text \<open>What each step of a handler leaves as it is.\<close>

lemma find_map_update:
  assumes "\<And>r. key (f r) = key r"
  shows "find (\<lambda>r. key r = i) (map (\<lambda>r. if key r = i then f r else r) rows) =
         map_option f (find (\<lambda>r. key r = i) rows)"
  using assms by (induction rows) auto

lemma notify_frame:
  "db_claims (notify k t m st) = db_claims st"
  "db_documents (notify k t m st) = db_documents st"
  "requests (notify k t m st) = requests st"
  "currentClaim (notify k t m st) = currentClaim st"
  "currentDocuments (notify k t m st) = currentDocuments st"
  "currentClaimApproved (notify k t m st) = currentClaimApproved st"
  "approve_disabled (notify k t m st) = approve_disabled st"
  "actions_displayed (notify k t m st) = actions_displayed st"
  "viewer_open (notify k t m st) = viewer_open st"
  by (simp_all add: notify_def)

lemmas showError_frame = notify_frame [of "''error''" "''Error''", folded showError_def]
lemmas showSuccess_frame = notify_frame [of "''success''" "''Success''", folded showSuccess_def]

lemma hide_actions_frame:
  "db_claims (hide_actions st) = db_claims st"
  "db_documents (hide_actions st) = db_documents st"
  "requests (hide_actions st) = requests st"
  "currentClaim (hide_actions st) = currentClaim st"
  "currentDocuments (hide_actions st) = currentDocuments st"
  "currentClaimApproved (hide_actions st) = currentClaimApproved st"
  "approve_disabled (hide_actions st) = approve_disabled st"
  "viewer_open (hide_actions st) = viewer_open st"
  "toasts (hide_actions st) = toasts st"
  by (simp_all add: hide_actions_def)

lemma restore_actions_frame:
  "db_claims (restore_actions st) = db_claims st"
  "db_documents (restore_actions st) = db_documents st"
  "requests (restore_actions st) = requests st"
  "currentClaim (restore_actions st) = currentClaim st"
  "currentDocuments (restore_actions st) = currentDocuments st"
  "currentClaimApproved (restore_actions st) = currentClaimApproved st"
  "approve_disabled (restore_actions st) = approve_disabled st"
  "viewer_open (restore_actions st) = viewer_open st"
  "toasts (restore_actions st) = toasts st"
  by (simp_all add: restore_actions_def)

lemma after_decision_frame:
  "db_claims (after_decision i st) = db_claims st"
  "db_documents (after_decision i st) = db_documents st"
  "requests (after_decision i st) = requests st"
  "currentClaim (after_decision i st) = currentClaim st"
  "currentDocuments (after_decision i st) = currentDocuments st"
  "approve_disabled (after_decision i st) = approve_disabled st"
  "toasts (after_decision i st) = toasts st"
  by (simp_all add: after_decision_def Let_def restore_actions_frame)

lemma car_updateDocumentStats_frame:
  "db_claims (car_updateDocumentStats st) = db_claims st"
  "db_documents (car_updateDocumentStats st) = db_documents st"
  "requests (car_updateDocumentStats st) = requests st"
  "currentClaim (car_updateDocumentStats st) = currentClaim st"
  "currentDocuments (car_updateDocumentStats st) = currentDocuments st"
  "currentClaimApproved (car_updateDocumentStats st) = currentClaimApproved st"
  "approve_disabled (car_updateDocumentStats st) = approve_disabled st"
  "viewer_open (car_updateDocumentStats st) = viewer_open st"
  "toasts (car_updateDocumentStats st) = toasts st"
  by (simp_all add: car_updateDocumentStats_def Let_def)

lemma car_setDecisionButtonsState_frame:
  "db_claims (car_setDecisionButtonsState c st) = db_claims st"
  "db_documents (car_setDecisionButtonsState c st) = db_documents st"
  "requests (car_setDecisionButtonsState c st) = requests st"
  "currentClaim (car_setDecisionButtonsState c st) = currentClaim st"
  "currentDocuments (car_setDecisionButtonsState c st) = currentDocuments st"
  "currentClaimApproved (car_setDecisionButtonsState c st) = currentClaimApproved st"
  "actions_displayed (car_setDecisionButtonsState c st) = actions_displayed st"
  "viewer_open (car_setDecisionButtonsState c st) = viewer_open st"
  "toasts (car_setDecisionButtonsState c st) = toasts st"
  by (simp_all add: car_setDecisionButtonsState_def Let_def)

lemma car_refresh_buttons_frame:
  "db_claims (car_refresh_buttons st) = db_claims st"
  "db_documents (car_refresh_buttons st) = db_documents st"
  "requests (car_refresh_buttons st) = requests st"
  "currentClaim (car_refresh_buttons st) = currentClaim st"
  "currentDocuments (car_refresh_buttons st) = currentDocuments st"
  "currentClaimApproved (car_refresh_buttons st) = currentClaimApproved st"
  "actions_displayed (car_refresh_buttons st) = actions_displayed st"
  "viewer_open (car_refresh_buttons st) = viewer_open st"
  "toasts (car_refresh_buttons st) = toasts st"
  by (simp_all add: car_refresh_buttons_def car_setDecisionButtonsState_frame split: option.split)

lemma car_viewDocument_frame:
  "db_claims (car_viewDocument i st) = db_claims st"
  "db_documents (car_viewDocument i st) = db_documents st"
  "requests (car_viewDocument i st) = requests st"
  "currentClaim (car_viewDocument i st) = currentClaim st"
  "currentDocuments (car_viewDocument i st) = currentDocuments st"
  "currentClaimApproved (car_viewDocument i st) = currentClaimApproved st"
  "approve_disabled (car_viewDocument i st) = approve_disabled st"
  by (simp_all add: car_viewDocument_def showError_frame hide_actions_frame split: option.split)

lemma ins_updateApprovalButtonStatus_frame:
  "db_claims (ins_updateApprovalButtonStatus ds st) = db_claims st"
  "db_documents (ins_updateApprovalButtonStatus ds st) = db_documents st"
  "requests (ins_updateApprovalButtonStatus ds st) = requests st"
  "currentClaim (ins_updateApprovalButtonStatus ds st) = currentClaim st"
  "currentDocuments (ins_updateApprovalButtonStatus ds st) = currentDocuments st"
  "currentClaimApproved (ins_updateApprovalButtonStatus ds st) = currentClaimApproved st"
  "viewer_open (ins_updateApprovalButtonStatus ds st) = viewer_open st"
  "toasts (ins_updateApprovalButtonStatus ds st) = toasts st"
  by (simp_all add: ins_updateApprovalButtonStatus_def Let_def)

lemma ins_refresh_buttons_frame:
  "db_claims (ins_refresh_buttons st) = db_claims st"
  "db_documents (ins_refresh_buttons st) = db_documents st"
  "requests (ins_refresh_buttons st) = requests st"
  "currentClaim (ins_refresh_buttons st) = currentClaim st"
  "currentDocuments (ins_refresh_buttons st) = currentDocuments st"
  "currentClaimApproved (ins_refresh_buttons st) = currentClaimApproved st"
  "viewer_open (ins_refresh_buttons st) = viewer_open st"
  "toasts (ins_refresh_buttons st) = toasts st"
  by (simp_all add: ins_refresh_buttons_def Let_def ins_updateApprovalButtonStatus_frame)

lemma ins_viewDocument_frame:
  "db_claims (ins_viewDocument i v st) = db_claims st"
  "db_documents (ins_viewDocument i v st) = db_documents st"
  "requests (ins_viewDocument i v st) = requests st"
  "currentClaim (ins_viewDocument i v st) = currentClaim st"
  "currentDocuments (ins_viewDocument i v st) = currentDocuments st"
  "currentClaimApproved (ins_viewDocument i v st) = currentClaimApproved st"
  "approve_disabled (ins_viewDocument i v st) = approve_disabled st"
  by (simp_all add: ins_viewDocument_def Let_def showError_frame hide_actions_frame split: option.split)

lemma update_claim_frame:
  "db_claims (update_claim i f st) = map (\<lambda>r. if claim_id r = i then f r else r) (db_claims st)"
  "db_documents (update_claim i f st) = db_documents st"
  "currentClaim (update_claim i f st) = currentClaim st"
  "currentDocuments (update_claim i f st) = currentDocuments st"
  "requests (update_claim i f st) = requests st @ [UpdateClaim i]"
  by (simp_all add: update_claim_def)

lemma write_claim_frame:
  "db_documents (write_claim be i f st) = db_documents st"
  "currentClaim (write_claim be i f st) = currentClaim st"
  "currentDocuments (write_claim be i f st) = currentDocuments st"
  "requests (write_claim be i f st) = requests st @ [UpdateClaim i]"
  by (simp_all add: write_claim_def update_claim_frame)

lemma write_claim_applied:
  "\<not> claim_update_fails be \<Longrightarrow>
   db_claims (write_claim be i f st) = map (\<lambda>r. if claim_id r = i then f r else r) (db_claims st)"
  by (simp add: write_claim_def update_claim_frame)

lemma update_document_frame:
  "db_documents (update_document i f st) = map (\<lambda>d. if doc_id d = i then f d else d) (db_documents st)"
  "db_claims (update_document i f st) = db_claims st"
  "currentClaim (update_document i f st) = currentClaim st"
  by (simp_all add: update_document_def)

lemma update_local_frame:
  "db_documents (update_local i f st) = db_documents st"
  "db_claims (update_local i f st) = db_claims st"
  "currentClaim (update_local i f st) = currentClaim st"
  by (simp_all add: update_local_def)

lemma car_safety_guard_frame:
  "db_documents (car_safety_guard be st) = db_documents st"
  "currentClaim (car_safety_guard be st) = currentClaim st"
  by (simp_all add: car_safety_guard_def Let_def write_claim_frame split: option.split)

lemma car_safety_guard_claims:
  "db_claims (car_safety_guard be st) = db_claims st \<or>
   db_claims (car_safety_guard be st) =
     map (\<lambda>r. if claim_id r = the (currentClaim st)
               then r\<lparr>is_approved_by_car_company := Some False, car_company_status := Some ''pending''\<rparr>
               else r) (db_claims st)"
  by (simp add: car_safety_guard_def Let_def write_claim_def update_claim_frame split: option.split)

lemma car_safety_guard_keeps:
  assumes "currentClaim st = Some cid"
    and "find (\<lambda>r. claim_id r = cid) (db_claims st) = Some r"
    and "is_approved_by_car_company r = Some False" and "car_company_approval_date r = None"
  shows "\<exists>r'. find (\<lambda>r. claim_id r = cid) (db_claims (car_safety_guard be st)) = Some r' \<and>
              is_approved_by_car_company r' = Some False \<and> car_company_approval_date r' = None"
proof -
  let ?g = "\<lambda>r. r\<lparr>is_approved_by_car_company := Some False, car_company_status := Some ''pending''\<rparr>"
  have "find (\<lambda>r. claim_id r = cid) (map (\<lambda>r. if claim_id r = cid then ?g r else r) (db_claims st))
        = Some (?g r)"
    using assms(2) by (subst find_map_update) simp_all
  with car_safety_guard_claims [of be st] assms show ?thesis by auto
qed

lemma claims_cleared:
  assumes "find (\<lambda>r. claim_id r = cid) (db_claims st) = Some r" and "\<not> claim_update_fails be"
  shows "find (\<lambda>r. claim_id r = cid) (db_claims (write_claim be cid car_clear_approval st))
         = Some (car_clear_approval r)"
    and "find (\<lambda>r. claim_id r = cid) (db_claims (write_claim be cid ins_clear_approval st))
         = Some (ins_clear_approval r)"
  using assms
  by (simp_all add: write_claim_applied find_map_update car_clear_approval_def ins_clear_approval_def)

lemma document_updated:
  assumes "find (\<lambda>d. doc_id d = did) (db_documents st) = Some d" and "\<And>x. doc_id (f x) = doc_id x"
  shows "find (\<lambda>d. doc_id d = did) (db_documents (update_document did f st)) = Some (f d)"
  using assms by (simp add: update_document_frame find_map_update)

text \<open>
  The four handlers: when they stop before the update of the document the tables are as
  before, and when they go through, the document and the claim are written as follows.
\<close>

lemma car_decision_blocked:
  assumes "currentClaimApproved st \<or> \<not> truthy_str (currentDocId st) \<or> auth_user be = None \<or>
           document_update_fails be"
  shows "db_documents (car_handleDocumentDecision be decision st) = db_documents st"
    and "db_claims (car_handleDocumentDecision be decision st) = db_claims st"
  using assms
  by (auto simp: car_handleDocumentDecision_def Let_def notify_frame split: option.split)

lemma car_decision_documents:
  assumes "\<not> currentClaimApproved st" and "currentDocId st = Some did" and "did \<noteq> []"
    and "auth_user be = Some user" and "\<not> document_update_fails be"
  shows "db_documents (car_handleDocumentDecision be decision st) =
           map (\<lambda>d. if doc_id d = did then car_updateData be (decision = ''verify'') user d else d) (db_documents st)"
  using assms
  by (simp add: truthy_str_def car_handleDocumentDecision_def Let_def
          after_decision_frame hide_actions_frame car_refresh_buttons_frame notify_frame
          car_updateDocumentStats_frame car_safety_guard_frame write_claim_frame
          update_local_frame update_document_frame)

lemma car_decision_claims:
  assumes "\<not> currentClaimApproved st" and "currentDocId st = Some did" and "did \<noteq> []"
    and "auth_user be = Some user" and "\<not> document_update_fails be"
    and "decision \<noteq> ''verify''" and "currentClaim st = Some cid" and "cid \<noteq> []"
  shows "db_claims (car_handleDocumentDecision be decision st) =
           db_claims (car_safety_guard be
             (write_claim be cid car_clear_approval
                (update_local did (car_updateData be False user)
                   (update_document did (car_updateData be False user) st))))"
  using assms
  by (simp add: truthy_str_def car_handleDocumentDecision_def Let_def
          after_decision_frame hide_actions_frame car_refresh_buttons_frame notify_frame
          car_updateDocumentStats_frame update_local_frame update_document_frame)

lemma car_decision_clears:
  assumes "\<not> currentClaimApproved st" and "currentDocId st = Some did" and "did \<noteq> []"
    and "auth_user be = Some user" and "\<not> document_update_fails be"
    and "decision \<noteq> ''verify''" and "currentClaim st = Some cid" and "cid \<noteq> []"
    and "find (\<lambda>r. claim_id r = cid) (db_claims st) = Some r" and "\<not> claim_update_fails be"
  shows "\<exists>r'. find (\<lambda>r. claim_id r = cid) (db_claims (car_handleDocumentDecision be decision st)) = Some r' \<and>
              is_approved_by_car_company r' = Some False \<and> car_company_approval_date r' = None"
proof -
  let ?st2 = "update_local did (car_updateData be False user)
                (update_document did (car_updateData be False user) st)"
  let ?st3 = "write_claim be cid car_clear_approval ?st2"
  have "find (\<lambda>r. claim_id r = cid) (db_claims ?st2) = Some r"
    by (simp add: update_local_frame update_document_frame assms(9))
  then have "find (\<lambda>r. claim_id r = cid) (db_claims ?st3) = Some (car_clear_approval r)"
    using assms(10) by (rule claims_cleared(1))
  moreover have "currentClaim ?st3 = Some cid"
    by (simp add: write_claim_frame update_local_frame update_document_frame assms(7))
  ultimately have "\<exists>r'. find (\<lambda>r. claim_id r = cid) (db_claims (car_safety_guard be ?st3)) = Some r' \<and>
              is_approved_by_car_company r' = Some False \<and> car_company_approval_date r' = None"
    by (intro car_safety_guard_keeps [where r = "car_clear_approval r"])
       (simp_all add: car_clear_approval_def)
  then show ?thesis
    by (simp only: car_decision_claims [OF assms(1-8)])
qed

lemma ins_decision_blocked:
  assumes "currentClaimApproved st \<or> \<not> truthy_str (currentDocId st) \<or> auth_user be = None \<or>
           document_update_fails be"
  shows "db_documents (ins_handleDocumentDecision be decision st) = db_documents st"
    and "db_claims (ins_handleDocumentDecision be decision st) = db_claims st"
  using assms
  by (auto simp: ins_handleDocumentDecision_def Let_def notify_frame split: option.split)

lemma ins_decision_documents:
  assumes "\<not> currentClaimApproved st" and "currentDocId st = Some did" and "did \<noteq> []"
    and "auth_user be = Some user" and "\<not> document_update_fails be"
  shows "db_documents (ins_handleDocumentDecision be decision st) =
           map (\<lambda>d. if doc_id d = did then ins_updateData be (decision = ''verify'') user d else d) (db_documents st)"
  using assms
  by (simp add: truthy_str_def ins_handleDocumentDecision_def Let_def
          after_decision_frame hide_actions_frame ins_refresh_buttons_frame notify_frame
          write_claim_frame update_local_frame update_document_frame)

lemma ins_decision_claims:
  assumes "\<not> currentClaimApproved st" and "currentDocId st = Some did" and "did \<noteq> []"
    and "auth_user be = Some user" and "\<not> document_update_fails be"
    and "decision \<noteq> ''verify''" and "currentClaim st = Some cid" and "cid \<noteq> []"
  shows "db_claims (ins_handleDocumentDecision be decision st) =
           db_claims (write_claim be cid ins_clear_approval
                        (update_document did (ins_updateData be False user) st))"
  using assms
  by (simp add: truthy_str_def ins_handleDocumentDecision_def Let_def
          after_decision_frame hide_actions_frame ins_refresh_buttons_frame notify_frame
          update_local_frame update_document_frame)

lemma ins_decision_clears:
  assumes "\<not> currentClaimApproved st" and "currentDocId st = Some did" and "did \<noteq> []"
    and "auth_user be = Some user" and "\<not> document_update_fails be"
    and "decision \<noteq> ''verify''" and "currentClaim st = Some cid" and "cid \<noteq> []"
    and "find (\<lambda>r. claim_id r = cid) (db_claims st) = Some r" and "\<not> claim_update_fails be"
  shows "\<exists>r'. find (\<lambda>r. claim_id r = cid) (db_claims (ins_handleDocumentDecision be decision st)) = Some r' \<and>
              is_approved_by_insurance_company r' = Some False \<and> insurance_company_approval_date r' = None"
proof -
  let ?st1 = "update_document did (ins_updateData be False user) st"
  have "find (\<lambda>r. claim_id r = cid) (db_claims ?st1) = Some r"
    by (simp add: update_document_frame assms(9))
  then have "find (\<lambda>r. claim_id r = cid) (db_claims (write_claim be cid ins_clear_approval ?st1))
             = Some (ins_clear_approval r)"
    using assms(10) by (rule claims_cleared(2))
  then show ?thesis
    by (simp add: ins_decision_claims [OF assms(1-8)] ins_clear_approval_def)
qed

lemma car_rejection_blocked:
  assumes "reason = [] \<or> (reason = ''others'' \<and> trim other = []) \<or>
           \<not> truthy_str (currentDocId st) \<or> document_update_fails be"
  shows "db_documents (car_confirmDocumentRejection be reason other st) = db_documents st"
    and "db_claims (car_confirmDocumentRejection be reason other st) = db_claims st"
  using assms
  by (auto simp: car_confirmDocumentRejection_def Let_def showError_frame)

lemma car_rejection_documents:
  assumes "reason \<noteq> []" and "reason = ''others'' \<longrightarrow> trim other \<noteq> []"
    and "currentDocId st = Some did" and "did \<noteq> []" and "\<not> document_update_fails be"
  shows "db_documents (car_confirmDocumentRejection be reason other st) =
           map (\<lambda>d. if doc_id d = did
                     then car_reject_update (if reason = ''others'' then ''Other: '' @ trim other else reason) d
                     else d) (db_documents st)"
  using assms
  by (auto simp: truthy_str_def car_confirmDocumentRejection_def Let_def
          car_viewDocument_frame showSuccess_frame car_updateDocumentStats_frame write_claim_frame
          update_local_frame update_document_frame)

lemma car_rejection_claims:
  assumes "reason \<noteq> []" and "reason = ''others'' \<longrightarrow> trim other \<noteq> []"
    and "currentDocId st = Some did" and "did \<noteq> []" and "\<not> document_update_fails be"
    and "currentClaim st = Some cid" and "cid \<noteq> []"
  shows "db_claims (car_confirmDocumentRejection be reason other st) =
           db_claims (write_claim be cid car_clear_approval
             (update_document did
                (car_reject_update (if reason = ''others'' then ''Other: '' @ trim other else reason)) st))"
  using assms
  by (auto simp: truthy_str_def car_confirmDocumentRejection_def Let_def
          car_viewDocument_frame showSuccess_frame car_updateDocumentStats_frame write_claim_def update_claim_frame
          update_local_frame update_document_frame)

lemma car_rejection_clears:
  assumes "reason \<noteq> []" and "reason = ''others'' \<longrightarrow> trim other \<noteq> []"
    and "currentDocId st = Some did" and "did \<noteq> []" and "\<not> document_update_fails be"
    and "currentClaim st = Some cid" and "cid \<noteq> []"
    and "find (\<lambda>r. claim_id r = cid) (db_claims st) = Some r" and "\<not> claim_update_fails be"
  shows "\<exists>r'. find (\<lambda>r. claim_id r = cid) (db_claims (car_confirmDocumentRejection be reason other st)) = Some r' \<and>
              is_approved_by_car_company r' = Some False \<and> car_company_approval_date r' = None"
proof -
  let ?st1 = "update_document did
                (car_reject_update (if reason = ''others'' then ''Other: '' @ trim other else reason)) st"
  have "find (\<lambda>r. claim_id r = cid) (db_claims ?st1) = Some r"
    by (simp add: update_document_frame assms(8))
  then have "find (\<lambda>r. claim_id r = cid) (db_claims (write_claim be cid car_clear_approval ?st1))
             = Some (car_clear_approval r)"
    using assms(9) by (rule claims_cleared)
  then show ?thesis
    by (simp add: car_rejection_claims [OF assms(1-7)] car_clear_approval_def)
qed

lemma ins_rejection_blocked:
  assumes "reason = [] \<or> (reason = ''others'' \<and> trim other = []) \<or>
           \<not> truthy_str (currentDocId st) \<or> document_update_fails be"
  shows "db_documents (ins_confirmDocumentRejection be reason other st) = db_documents st"
    and "db_claims (ins_confirmDocumentRejection be reason other st) = db_claims st"
  using assms
  by (auto simp: ins_confirmDocumentRejection_def Let_def showError_frame)

lemma ins_rejection_documents:
  assumes "reason \<noteq> []" and "reason = ''others'' \<longrightarrow> trim other \<noteq> []"
    and "currentDocId st = Some did" and "did \<noteq> []" and "\<not> document_update_fails be"
  shows "db_documents (ins_confirmDocumentRejection be reason other st) =
           map (\<lambda>d. if doc_id d = did
                     then ins_reject_update (if reason = ''others'' then ''Other: '' @ trim other else reason) d
                     else d) (db_documents st)"
  using assms
  by (auto simp: truthy_str_def ins_confirmDocumentRejection_def Let_def
          ins_viewDocument_frame showSuccess_frame ins_refresh_buttons_frame write_claim_frame
          update_local_frame update_document_frame)

lemma ins_rejection_claims:
  assumes "reason \<noteq> []" and "reason = ''others'' \<longrightarrow> trim other \<noteq> []"
    and "currentDocId st = Some did" and "did \<noteq> []" and "\<not> document_update_fails be"
    and "currentClaim st = Some cid" and "cid \<noteq> []"
  shows "db_claims (ins_confirmDocumentRejection be reason other st) =
           db_claims (write_claim be cid ins_clear_approval
             (update_document did
                (ins_reject_update (if reason = ''others'' then ''Other: '' @ trim other else reason)) st))"
  using assms
  by (auto simp: truthy_str_def ins_confirmDocumentRejection_def Let_def
          ins_viewDocument_frame showSuccess_frame ins_refresh_buttons_frame write_claim_def update_claim_frame
          update_local_frame update_document_frame)

lemma ins_rejection_clears:
  assumes "reason \<noteq> []" and "reason = ''others'' \<longrightarrow> trim other \<noteq> []"
    and "currentDocId st = Some did" and "did \<noteq> []" and "\<not> document_update_fails be"
    and "currentClaim st = Some cid" and "cid \<noteq> []"
    and "find (\<lambda>r. claim_id r = cid) (db_claims st) = Some r" and "\<not> claim_update_fails be"
  shows "\<exists>r'. find (\<lambda>r. claim_id r = cid) (db_claims (ins_confirmDocumentRejection be reason other st)) = Some r' \<and>
              is_approved_by_insurance_company r' = Some False \<and> insurance_company_approval_date r' = None"
proof -
  let ?st1 = "update_document did
                (ins_reject_update (if reason = ''others'' then ''Other: '' @ trim other else reason)) st"
  have "find (\<lambda>r. claim_id r = cid) (db_claims ?st1) = Some r"
    by (simp add: update_document_frame assms(8))
  then have "find (\<lambda>r. claim_id r = cid) (db_claims (write_claim be cid ins_clear_approval ?st1))
             = Some (ins_clear_approval r)"
    using assms(9) by (rule claims_cleared)
  then show ?thesis
    by (simp add: ins_rejection_claims [OF assms(1-7)] ins_clear_approval_def)
qed

lemma update_requests:
  "requests (update_document i f st) = requests st @ [UpdateDocument i]"
  "requests (update_local i f st) = requests st"
  by (simp_all add: update_document_def update_local_def)

lemma car_safety_guard_requests:
  "prefix (requests st) (requests (car_safety_guard be st))"
  by (simp add: car_safety_guard_def Let_def write_claim_frame split: option.split)

lemma car_decision_requests:
  assumes "\<not> currentClaimApproved st" and "currentDocId st = Some did" and "did \<noteq> []"
    and "auth_user be = Some user" and "\<not> document_update_fails be"
    and "decision \<noteq> ''verify''" and "currentClaim st = Some cid" and "cid \<noteq> []"
  shows "prefix (requests st @ [UpdateDocument did, UpdateClaim cid])
           (requests (car_handleDocumentDecision be decision st))"
proof -
  let ?st3 = "write_claim be cid car_clear_approval
                (update_local did (car_updateData be False user)
                   (update_document did (car_updateData be False user) st))"
  have "requests (car_handleDocumentDecision be decision st) = requests (car_safety_guard be ?st3)"
    using assms
    by (simp add: truthy_str_def car_handleDocumentDecision_def Let_def
          after_decision_frame hide_actions_frame car_refresh_buttons_frame notify_frame
          car_updateDocumentStats_frame update_local_frame update_document_frame)
  moreover have "requests ?st3 = requests st @ [UpdateDocument did, UpdateClaim cid]"
    by (simp add: write_claim_frame update_requests)
  ultimately show ?thesis
    using car_safety_guard_requests [of ?st3 be] by simp
qed

lemma ins_decision_requests:
  assumes "\<not> currentClaimApproved st" and "currentDocId st = Some did" and "did \<noteq> []"
    and "auth_user be = Some user" and "\<not> document_update_fails be"
    and "decision \<noteq> ''verify''" and "currentClaim st = Some cid" and "cid \<noteq> []"
  shows "prefix (requests st @ [UpdateDocument did, UpdateClaim cid])
           (requests (ins_handleDocumentDecision be decision st))"
  using assms
  by (simp add: truthy_str_def ins_handleDocumentDecision_def Let_def
        after_decision_frame hide_actions_frame ins_refresh_buttons_frame notify_frame
        update_local_frame update_document_frame write_claim_frame update_requests)

lemma car_rejection_requests:
  assumes "reason \<noteq> []" and "reason = ''others'' \<longrightarrow> trim other \<noteq> []"
    and "currentDocId st = Some did" and "did \<noteq> []" and "\<not> document_update_fails be"
    and "currentClaim st = Some cid" and "cid \<noteq> []"
  shows "prefix (requests st @ [UpdateDocument did, UpdateClaim cid])
           (requests (car_confirmDocumentRejection be reason other st))"
  using assms
  by (auto simp: truthy_str_def car_confirmDocumentRejection_def Let_def
        car_viewDocument_frame showSuccess_frame car_updateDocumentStats_frame write_claim_frame
        update_local_frame update_document_frame update_requests)

lemma ins_rejection_requests:
  assumes "reason \<noteq> []" and "reason = ''others'' \<longrightarrow> trim other \<noteq> []"
    and "currentDocId st = Some did" and "did \<noteq> []" and "\<not> document_update_fails be"
    and "currentClaim st = Some cid" and "cid \<noteq> []"
  shows "prefix (requests st @ [UpdateDocument did, UpdateClaim cid])
           (requests (ins_confirmDocumentRejection be reason other st))"
  using assms
  by (auto simp: truthy_str_def ins_confirmDocumentRejection_def Let_def
        ins_viewDocument_frame showSuccess_frame ins_refresh_buttons_frame write_claim_frame
        update_local_frame update_document_frame update_requests)

text \<open>What the handlers write to the open document when they go through.\<close>

lemma decision_moves_document:
  assumes "\<not> currentClaimApproved st" and "currentDocId st = Some did" and "did \<noteq> []"
    and "auth_user be = Some user" and "\<not> document_update_fails be"
    and "find (\<lambda>d. doc_id d = did) (db_documents st) = Some d"
  shows "\<exists>d'. find (\<lambda>d. doc_id d = did) (db_documents (perform be who (Decision decision) st)) = Some d' \<and>
              verified_by who d' = Some (decision = ''verify'')"
proof (cases who)
  case CarCompany
  have "find (\<lambda>d. doc_id d = did) (db_documents (car_handleDocumentDecision be decision st)) =
          Some (car_updateData be (decision = ''verify'') user d)"
    by (simp add: car_decision_documents [OF assms(1-5)] find_map_update car_updateData_def assms(6))
  then show ?thesis using CarCompany by (simp add: car_updateData_def)
next
  case InsuranceCompany
  have "find (\<lambda>d. doc_id d = did) (db_documents (ins_handleDocumentDecision be decision st)) =
          Some (ins_updateData be (decision = ''verify'') user d)"
    by (simp add: ins_decision_documents [OF assms(1-5)] find_map_update ins_updateData_def assms(6))
  then show ?thesis using InsuranceCompany by (simp add: ins_updateData_def)
qed

lemma rejection_moves_document:
  assumes "reason \<noteq> []" and "reason = ''others'' \<longrightarrow> trim other \<noteq> []"
    and "currentDocId st = Some did" and "did \<noteq> []" and "\<not> document_update_fails be"
    and "find (\<lambda>d. doc_id d = did) (db_documents st) = Some d"
  shows "\<exists>d'. find (\<lambda>d. doc_id d = did) (db_documents (perform be who (Rejection reason other) st)) = Some d' \<and>
              verified_by who d' = Some False"
proof (cases who)
  case CarCompany
  let ?n = "if reason = ''others'' then ''Other: '' @ trim other else reason"
  have "find (\<lambda>d. doc_id d = did) (db_documents (car_confirmDocumentRejection be reason other st)) =
          Some (car_reject_update ?n d)"
    by (simp only: car_rejection_documents [OF assms(1-5)])
       (simp add: find_map_update car_reject_update_def assms(6))
  then show ?thesis using CarCompany by (simp add: car_reject_update_def)
next
  case InsuranceCompany
  let ?n = "if reason = ''others'' then ''Other: '' @ trim other else reason"
  have "find (\<lambda>d. doc_id d = did) (db_documents (ins_confirmDocumentRejection be reason other st)) =
          Some (ins_reject_update ?n d)"
    by (simp only: ins_rejection_documents [OF assms(1-5)])
       (simp add: find_map_update ins_reject_update_def assms(6))
  then show ?thesis using InsuranceCompany by (simp add: ins_reject_update_def)
qed

text \<open>When a handler stops before the update of the document, the tables are as before.\<close>

lemma decision_blocked:
  assumes "currentClaimApproved st \<or> auth_user be = None \<or> document_update_fails be"
  shows "db_documents (perform be who (Decision decision) st) = db_documents st"
  using assms by (cases who) (simp_all add: car_decision_blocked ins_decision_blocked)

lemma rejection_blocked:
  assumes "reason = [] \<or> (reason = ''others'' \<and> trim other = []) \<or> document_update_fails be"
  shows "db_documents (perform be who (Rejection reason other) st) = db_documents st"
  using assms by (cases who) (simp_all add: car_rejection_blocked ins_rejection_blocked)

lemma decision_clears:
  assumes "\<not> currentClaimApproved st" and "currentDocId st = Some did" and "did \<noteq> []"
    and "auth_user be = Some user" and "\<not> document_update_fails be"
    and "decision \<noteq> ''verify''" and "currentClaim st = Some cid" and "cid \<noteq> []"
    and "find (\<lambda>r. claim_id r = cid) (db_claims st) = Some r"
  shows "prefix (requests st @ [UpdateDocument did, UpdateClaim cid])
           (requests (perform be who (Decision decision) st)) \<and>
         (\<not> claim_update_fails be \<longrightarrow>
            (\<exists>r'. find (\<lambda>r. claim_id r = cid) (db_claims (perform be who (Decision decision) st)) = Some r' \<and>
                  approval_flag who r' = Some False \<and> approval_date who r' = None))"
proof (cases who)
  case CarCompany
  then show ?thesis
    using car_decision_requests [OF assms(1-8)] car_decision_clears [OF assms] by simp
next
  case InsuranceCompany
  then show ?thesis
    using ins_decision_requests [OF assms(1-8)] ins_decision_clears [OF assms] by simp
qed

lemma rejection_clears:
  assumes "reason \<noteq> []" and "reason = ''others'' \<longrightarrow> trim other \<noteq> []"
    and "currentDocId st = Some did" and "did \<noteq> []" and "\<not> document_update_fails be"
    and "currentClaim st = Some cid" and "cid \<noteq> []"
    and "find (\<lambda>r. claim_id r = cid) (db_claims st) = Some r"
  shows "prefix (requests st @ [UpdateDocument did, UpdateClaim cid])
           (requests (perform be who (Rejection reason other) st)) \<and>
         (\<not> claim_update_fails be \<longrightarrow>
            (\<exists>r'. find (\<lambda>r. claim_id r = cid) (db_claims (perform be who (Rejection reason other) st)) = Some r' \<and>
                  approval_flag who r' = Some False \<and> approval_date who r' = None))"
proof (cases who)
  case CarCompany
  then show ?thesis
    using car_rejection_requests [OF assms(1-7)] car_rejection_clears [OF assms] by simp
next
  case InsuranceCompany
  then show ?thesis
    using ins_rejection_requests [OF assms(1-7)] ins_rejection_clears [OF assms] by simp
qed

text \<open>
  What the page opens: after \<open>viewClaimDocuments\<close> and \<open>viewDocument\<close> the open
  document is a document of the open claim, in both portals.
\<close>

lemma select_single_id: "select_single i rows = Some c \<Longrightarrow> claim_id c = i \<and> c \<in> set rows"
proof -
  assume a: "select_single i rows = Some c"
  then have "filter (\<lambda>r. claim_id r = i) rows = [c]"
    by (auto simp: select_single_def split: list.splits)
  then have "c \<in> set (filter (\<lambda>r. claim_id r = i) rows)" by simp
  then show ?thesis by simp
qed

lemma find_distinct_key:
  "distinct (map key xs) \<Longrightarrow> x \<in> set xs \<Longrightarrow> find (\<lambda>y. key y = key x) xs = Some x"
  by (induction xs) (auto simp: image_iff)

lemma find_filter_Some:
  "find P (filter Q xs) = Some x \<Longrightarrow> x \<in> set xs \<and> P x \<and> Q x"
  by (induction xs) (auto split: if_splits)

lemma find_filter_single: "filter P xs = [c] \<Longrightarrow> find P xs = Some c"
  by (induction xs) (auto split: if_splits)

lemma car_opened_document:
  assumes "select_single cid (db_claims st) = Some c"
    and "distinct (map doc_id (db_documents st))"
    and "find (\<lambda>doc. doc_id doc = did) (currentDocuments (car_viewClaimDocuments cid st)) = Some d"
  shows "currentClaim (car_viewDocument did (car_viewClaimDocuments cid st)) = Some cid \<and>
         currentDocId (car_viewDocument did (car_viewClaimDocuments cid st)) = Some did \<and>
         find (\<lambda>x. doc_id x = did) (db_documents (car_viewDocument did (car_viewClaimDocuments cid st))) = Some d \<and>
         doc_claim_id d = cid \<and>
         find (\<lambda>r. claim_id r = cid) (db_claims (car_viewDocument did (car_viewClaimDocuments cid st))) = Some c"
proof -
  let ?st1 = "car_viewClaimDocuments cid st"
  have c: "claim_id c = cid" "c \<in> set (db_claims st)"
    using select_single_id [OF assms(1)] by simp_all
  have docs: "currentDocuments ?st1 =
      filter (\<lambda>d. doc_claim_id d = cid \<and> doc_type d \<in> set car_CAR_COMPANY_DOCUMENT_TYPES) (db_documents st)"
    and cc: "currentClaim ?st1 = Some cid"
    and db: "db_documents ?st1 = db_documents st" "db_claims ?st1 = db_claims st"
    using assms(1) c
    by (simp_all add: car_viewClaimDocuments_def car_loadClaimDocuments_def Let_def
          car_applyApprovedState_def hide_actions_def car_setDecisionButtonsState_def
          car_updateDocumentStats_def)
  from assms(3) have d: "d \<in> set (db_documents st)" "doc_id d = did" "doc_claim_id d = cid"
    unfolding docs by (auto dest: find_filter_Some)
  have fd: "find (\<lambda>x. doc_id x = did) (db_documents st) = Some d"
    using find_distinct_key [OF assms(2) d(1)] d(2) by simp
  have "filter (\<lambda>r. claim_id r = cid) (db_claims st) = [c]"
    using assms(1) by (auto simp: select_single_def split: list.splits)
  then have fc: "find (\<lambda>r. claim_id r = cid) (db_claims st) = Some c"
    by (rule find_filter_single)
  have v: "currentDocId (car_viewDocument did ?st1) = Some did"
    using assms(3) by (simp add: car_viewDocument_def hide_actions_def)
  show ?thesis
    by (simp add: v car_viewDocument_frame cc db fd fc d(3))
qed

lemma ins_opened_document:
  assumes "select_single cid (db_claims st) = Some c"
    and "status c \<noteq> Some ''approved''" and "status c \<noteq> Some ''rejected''"
    and "eligible (filter (\<lambda>d. doc_claim_id d = cid) (db_documents st))"
    and "distinct (map doc_id (db_documents st))"
    and "find (\<lambda>doc. doc_id doc = did) (currentDocuments (ins_viewClaimDocuments_page cid st)) = Some d"
  shows "currentClaim (ins_viewDocument did True (ins_viewClaimDocuments_page cid st)) = Some cid \<and>
         currentDocId (ins_viewDocument did True (ins_viewClaimDocuments_page cid st)) = Some did \<and>
         find (\<lambda>x. doc_id x = did)
           (db_documents (ins_viewDocument did True (ins_viewClaimDocuments_page cid st))) = Some d \<and>
         doc_claim_id d = cid \<and>
         find (\<lambda>r. claim_id r = cid)
           (db_claims (ins_viewDocument did True (ins_viewClaimDocuments_page cid st))) = Some c"
proof -
  let ?st1 = "ins_viewClaimDocuments_page cid st"
  have gate: "ins_viewClaimDocuments
      (Some (claim.extend c
         (claim_row.fields (Some (filter (\<lambda>d. doc_claim_id d = cid) (db_documents st)))))) = Shown ()"
    using assms(4)
    by (auto simp: ins_viewClaimDocuments_def eligible_def Let_def claim.defs claim_row.defs
          split: if_splits)
  have page: "?st1 = ins_loadClaimDocuments cid (st\<lparr>currentClaim := Some cid\<rparr>)"
    using assms(1) gate by (simp add: ins_viewClaimDocuments_page_def Let_def)
  have docs: "currentDocuments ?st1 = filter (\<lambda>d. doc_claim_id d = cid) (db_documents st)"
    and cc: "currentClaim ?st1 = Some cid"
    and ca: "\<not> currentClaimApproved ?st1"
    and db: "db_documents ?st1 = db_documents st" "db_claims ?st1 = db_claims st"
    unfolding page using assms(1,2,3)
    by (simp_all add: ins_loadClaimDocuments_def Let_def ins_applyApprovedState_def hide_actions_def
          ins_updateApprovalButtonStatus_def)
  from assms(6) have d: "d \<in> set (db_documents st)" "doc_id d = did" "doc_claim_id d = cid"
    unfolding docs by (auto dest: find_filter_Some)
  have fd: "find (\<lambda>x. doc_id x = did) (db_documents st) = Some d"
    using find_distinct_key [OF assms(5) d(1)] d(2) by simp
  have "filter (\<lambda>r. claim_id r = cid) (db_claims st) = [c]"
    using assms(1) by (auto simp: select_single_def split: list.splits)
  then have fc: "find (\<lambda>r. claim_id r = cid) (db_claims st) = Some c"
    by (rule find_filter_single)
  have v: "currentDocId (ins_viewDocument did True ?st1) = Some did"
    using assms(6) ca by (simp add: ins_viewDocument_def hide_actions_def Let_def)
  show ?thesis
    by (simp add: v ins_viewDocument_frame cc db fd fc d(3))
qed

text \<open>
  Claim C3: a document of the open claim is open in the viewer and is verified by the
  reviewer. The unverify branch of the decision handler (any decision other than
  \<open>verify\<close>, on a claim that is not view-only, with a signed-in user) and a rejection
  with a reason, when the backend applies the update of the document, leave the document
  not verified by that reviewer. Whenever the handler leaves the document not verified,
  it has sent, right after the update of the document, the update that clears the
  approval of the claim, and when the backend applies it the claim has the approval flag
  of that reviewer false and the approval date of that reviewer null.
\<close>

theorem unverify_clears_approval:
  assumes "currentClaim st = Some cid" and "cid \<noteq> []"
    and "currentDocId st = Some did" and "did \<noteq> []"
    and "find (\<lambda>d. doc_id d = did) (db_documents st) = Some d"
    and "doc_claim_id d = cid"
    and "truthy_bool (verified_by who d)"
    and "find (\<lambda>r. claim_id r = cid) (db_claims st) = Some r"
  shows
    "((case op of
         Decision decision \<Rightarrow>
           decision \<noteq> ''verify'' \<and> \<not> currentClaimApproved st \<and> auth_user be \<noteq> None
       | Rejection reason other \<Rightarrow>
           reason \<noteq> [] \<and> (reason = ''others'' \<longrightarrow> trim other \<noteq> [])) \<and>
      \<not> document_update_fails be
      \<longrightarrow> (\<exists>d'. find (\<lambda>d. doc_id d = did) (db_documents (perform be who op st)) = Some d' \<and>
                verified_by who d' = Some False)) \<and>
     ((\<exists>d'. find (\<lambda>d. doc_id d = did) (db_documents (perform be who op st)) = Some d' \<and>
            \<not> truthy_bool (verified_by who d'))
      \<longrightarrow> prefix (requests st @ [UpdateDocument did, UpdateClaim cid])
             (requests (perform be who op st)) \<and>
          (\<not> claim_update_fails be \<longrightarrow>
             (\<exists>r'. find (\<lambda>r. claim_id r = cid) (db_claims (perform be who op st)) = Some r' \<and>
                   approval_flag who r' = Some False \<and> approval_date who r' = None)))"
proof (cases op)
  case (Decision decision)
  have forward: "decision \<noteq> ''verify'' \<and> \<not> currentClaimApproved st \<and> auth_user be \<noteq> None \<and>
      \<not> document_update_fails be
      \<longrightarrow> (\<exists>d'. find (\<lambda>d. doc_id d = did) (db_documents (perform be who (Decision decision) st)) = Some d' \<and>
                verified_by who d' = Some False)"
  proof
    assume a: "decision \<noteq> ''verify'' \<and> \<not> currentClaimApproved st \<and> auth_user be \<noteq> None \<and>
      \<not> document_update_fails be"
    then obtain user where u: "auth_user be = Some user" by auto
    from a u decision_moves_document [of st did be user d who decision] assms(3,4,5)
    show "\<exists>d'. find (\<lambda>d. doc_id d = did) (db_documents (perform be who (Decision decision) st)) = Some d' \<and>
                verified_by who d' = Some False"
      by simp
  qed
  have backward: "prefix (requests st @ [UpdateDocument did, UpdateClaim cid])
             (requests (perform be who (Decision decision) st)) \<and>
          (\<not> claim_update_fails be \<longrightarrow>
             (\<exists>r'. find (\<lambda>r. claim_id r = cid) (db_claims (perform be who (Decision decision) st)) = Some r' \<and>
                   approval_flag who r' = Some False \<and> approval_date who r' = None))"
    if moved: "find (\<lambda>d. doc_id d = did) (db_documents (perform be who (Decision decision) st)) = Some d'"
       "\<not> truthy_bool (verified_by who d')" for d'
  proof (cases "currentClaimApproved st \<or> auth_user be = None \<or> document_update_fails be")
    case True
    then have "db_documents (perform be who (Decision decision) st) = db_documents st"
      by (rule decision_blocked)
    with moved assms(5,7) show ?thesis by simp
  next
    case False
    then obtain user where u: "auth_user be = Some user" by auto
    from False have through: "\<not> currentClaimApproved st" "\<not> document_update_fails be" by simp_all
    from decision_moves_document [OF through(1) assms(3,4) u through(2) assms(5), of who decision] moved
    have "decision \<noteq> ''verify''" by (auto simp: truthy_bool_def)
    then show ?thesis
      using decision_clears [OF through(1) assms(3,4) u through(2) _ assms(1,2,8), of decision who]
      by simp
  qed
  from forward backward Decision show ?thesis by auto
next
  case (Rejection reason other)
  have forward: "reason \<noteq> [] \<and> (reason = ''others'' \<longrightarrow> trim other \<noteq> []) \<and>
      \<not> document_update_fails be
      \<longrightarrow> (\<exists>d'. find (\<lambda>d. doc_id d = did) (db_documents (perform be who (Rejection reason other) st)) = Some d' \<and>
                verified_by who d' = Some False)"
    using rejection_moves_document [of reason other st did be d who] assms(3,4,5) by simp
  have backward: "prefix (requests st @ [UpdateDocument did, UpdateClaim cid])
             (requests (perform be who (Rejection reason other) st)) \<and>
          (\<not> claim_update_fails be \<longrightarrow>
             (\<exists>r'. find (\<lambda>r. claim_id r = cid) (db_claims (perform be who (Rejection reason other) st)) = Some r' \<and>
                   approval_flag who r' = Some False \<and> approval_date who r' = None))"
    if moved: "find (\<lambda>d. doc_id d = did) (db_documents (perform be who (Rejection reason other) st)) = Some d'"
       "\<not> truthy_bool (verified_by who d')" for d'
  proof (cases "reason = [] \<or> (reason = ''others'' \<and> trim other = []) \<or> document_update_fails be")
    case True
    then have "db_documents (perform be who (Rejection reason other) st) = db_documents st"
      by (rule rejection_blocked)
    with moved assms(5,7) show ?thesis by simp
  next
    case False
    then have through: "reason \<noteq> []" "reason = ''others'' \<longrightarrow> trim other \<noteq> []"
        "\<not> document_update_fails be"
      by auto
    show ?thesis
      using rejection_clears [OF through(1,2) assms(3,4) through(3) assms(1,2,8), of who] by simp
  qed
  from forward backward Rejection show ?thesis by auto
qed

text \<open>
  The example of a claim approved by both companies whose verified document is open in the
  viewer: the car company withdraws its verification, or rejects the document as expired;
  the insurance company withdraws its verification, or rejects the document for a reason
  of its own.
\<close>

theorem unverify_clears_approval_witness:
  "(\<exists>d'. find (\<lambda>d. doc_id d = ''d1'')
           (db_documents (perform answering_backend CarCompany (Decision ''unverify'')
              (review_page (approved_claim ''c1'') (verified_document ''d1'' ''c1'' ''lto_or''))))
           = Some d' \<and> verified_by CarCompany d' = Some False) \<and>
   (\<exists>r'. find (\<lambda>r. claim_id r = ''c1'')
           (db_claims (perform answering_backend CarCompany (Decision ''unverify'')
              (review_page (approved_claim ''c1'') (verified_document ''d1'' ''c1'' ''lto_or''))))
           = Some r' \<and> approval_flag CarCompany r' = Some False \<and> approval_date CarCompany r' = None) \<and>
   (\<exists>d'. find (\<lambda>d. doc_id d = ''d1'')
           (db_documents (perform answering_backend CarCompany (Rejection ''document_expired'' [])
              (review_page (approved_claim ''c1'') (verified_document ''d1'' ''c1'' ''lto_or''))))
           = Some d' \<and> verified_by CarCompany d' = Some False) \<and>
   (\<exists>r'. find (\<lambda>r. claim_id r = ''c1'')
           (db_claims (perform answering_backend CarCompany (Rejection ''document_expired'' [])
              (review_page (approved_claim ''c1'') (verified_document ''d1'' ''c1'' ''lto_or''))))
           = Some r' \<and> approval_flag CarCompany r' = Some False \<and> approval_date CarCompany r' = None) \<and>
   (\<exists>d'. find (\<lambda>d. doc_id d = ''d1'')
           (db_documents (perform answering_backend InsuranceCompany (Decision ''unverify'')
              (review_page (approved_claim ''c1'') (verified_document ''d1'' ''c1'' ''lto_or''))))
           = Some d' \<and> verified_by InsuranceCompany d' = Some False) \<and>
   (\<exists>r'. find (\<lambda>r. claim_id r = ''c1'')
           (db_claims (perform answering_backend InsuranceCompany (Decision ''unverify'')
              (review_page (approved_claim ''c1'') (verified_document ''d1'' ''c1'' ''lto_or''))))
           = Some r' \<and> approval_flag InsuranceCompany r' = Some False \<and> approval_date InsuranceCompany r' = None) \<and>
   (\<exists>d'. find (\<lambda>d. doc_id d = ''d1'')
           (db_documents (perform answering_backend InsuranceCompany (Rejection ''others'' ''torn page'')
              (review_page (approved_claim ''c1'') (verified_document ''d1'' ''c1'' ''lto_or''))))
           = Some d' \<and> verified_by InsuranceCompany d' = Some False) \<and>
   (\<exists>r'. find (\<lambda>r. claim_id r = ''c1'')
           (db_claims (perform answering_backend InsuranceCompany (Rejection ''others'' ''torn page'')
              (review_page (approved_claim ''c1'') (verified_document ''d1'' ''c1'' ''lto_or''))))
           = Some r' \<and> approval_flag InsuranceCompany r' = Some False \<and> approval_date InsuranceCompany r' = None)"
proof -
  let ?c = "approved_claim ''c1''"
  let ?d = "verified_document ''d1'' ''c1'' ''lto_or''"
  let ?st = "review_page ?c ?d"
  have h1: "currentClaim ?st = Some ''c1''"
    by (simp add: review_page_def approved_claim_def submitted_claim_def)
  have h2: "''c1'' \<noteq> []" and h4: "''d1'' \<noteq> []" by simp_all
  have h3: "currentDocId ?st = Some ''d1''"
    by (simp add: review_page_def verified_document_def uploaded_document_def)
  have h5: "find (\<lambda>d. doc_id d = ''d1'') (db_documents ?st) = Some ?d"
    by (simp add: review_page_def verified_document_def uploaded_document_def)
  have h6: "doc_claim_id ?d = ''c1''"
    by (simp add: verified_document_def uploaded_document_def)
  have h7: "truthy_bool (verified_by who ?d)" for who
    by (cases who) (simp_all add: verified_document_def uploaded_document_def truthy_bool_def)
  have h8: "find (\<lambda>r. claim_id r = ''c1'') (db_claims ?st) = Some ?c"
    by (simp add: review_page_def approved_claim_def submitted_claim_def)
  have applied: "\<not> claim_update_fails answering_backend"
    by (simp add: answering_backend_def)
  have w: "(\<exists>d'. find (\<lambda>d. doc_id d = ''d1'') (db_documents (perform answering_backend who op ?st)) = Some d' \<and>
                verified_by who d' = Some False) \<and>
     (\<exists>r'. find (\<lambda>r. claim_id r = ''c1'') (db_claims (perform answering_backend who op ?st)) = Some r' \<and>
              approval_flag who r' = Some False \<and> approval_date who r' = None)"
    if op: "op = Decision ''unverify'' \<or> op = Rejection ''document_expired'' [] \<or>
            op = Rejection ''others'' ''torn page''" for who op
  proof -
    let ?st' = "perform answering_backend who op ?st"
    have through: "(case op of
           Decision decision \<Rightarrow>
             decision \<noteq> ''verify'' \<and> \<not> currentClaimApproved ?st \<and> auth_user answering_backend \<noteq> None
         | Rejection reason other \<Rightarrow>
             reason \<noteq> [] \<and> (reason = ''others'' \<longrightarrow> trim other \<noteq> [])) \<and>
        \<not> document_update_fails answering_backend"
      using op by (auto simp: review_page_def answering_backend_def trim_def js_whitespace_def)
    note inst = unverify_clears_approval [where who = who and op = op and be = answering_backend,
        OF h1 h2 h3 h4 h5 h6 h7 h8]
    from inst through
    have moved: "\<exists>d'. find (\<lambda>d. doc_id d = ''d1'') (db_documents ?st') = Some d' \<and>
                  verified_by who d' = Some False"
      by blast
    then have "\<exists>d'. find (\<lambda>d. doc_id d = ''d1'') (db_documents ?st') = Some d' \<and>
                  \<not> truthy_bool (verified_by who d')"
      by (auto simp: truthy_bool_def)
    with inst applied
    have "\<exists>r'. find (\<lambda>r. claim_id r = ''c1'') (db_claims ?st') = Some r' \<and>
                approval_flag who r' = Some False \<and> approval_date who r' = None"
      by blast
    with moved show ?thesis by simp
  qed
  show ?thesis
    using w [of "Decision ''unverify''" CarCompany]
      w [of "Rejection ''document_expired'' []" CarCompany]
      w [of "Decision ''unverify''" InsuranceCompany]
      w [of "Rejection ''others'' ''torn page''" InsuranceCompany]
    by simp
qed

lemma car_confirmReject_empty:
  "trim rejectionNotes = [] \<Longrightarrow>
   car_confirmReject be rejectionNotes st =
     st\<lparr>toasts := toasts st @ [(''error'', ''Error'', ''Please provide a reason for rejection'')]\<rparr>"
  by (simp add: car_confirmReject_def showError_def notify_def)

lemma ins_confirmReject_empty:
  "trim rejectionNotes = [] \<Longrightarrow>
   ins_confirmReject be rejectionNotes st =
     st\<lparr>toasts := toasts st @ [(''error'', ''Error'', ''Please provide a reason for rejection'')]\<rparr>"
  by (simp add: ins_confirmReject_def showError_def notify_def)

lemma confirmReject_empty:
  "trim rejectionNotes = [] \<Longrightarrow>
   confirmReject who be rejectionNotes st =
     st\<lparr>toasts := toasts st @ [(''error'', ''Error'', ''Please provide a reason for rejection'')]\<rparr>"
  by (cases who) (simp_all add: car_confirmReject_empty ins_confirmReject_empty)

lemma confirmReject_issues:
  assumes "trim rejectionNotes \<noteq> []" and "truthy_str (currentClaim st)"
  shows "UpdateClaim (the (currentClaim st)) \<in> set (requests (confirmReject who be rejectionNotes st))"
  using assms
  by (cases who)
     (simp_all add: car_confirmReject_def ins_confirmReject_def car_decideClaim_def ins_decideClaim_def
        Let_def showError_def showSuccess_def notify_def update_claim_def hide_actions_def
        closeRejectionModal_def restore_actions_def)

text \<open>
  Claim C7: confirming the rejection of a claim with an empty or blank reason shows an
  error and changes nothing else: no update of the claim, no notification. A write is
  sent only when the trimmed reason is not empty, and with a claim open it is sent then.
\<close>

theorem rejection_needs_reason:
  "(trim rejectionNotes = [] \<longrightarrow>
      confirmReject who be rejectionNotes st =
        st\<lparr>toasts := toasts st @ [(''error'', ''Error'', ''Please provide a reason for rejection'')]\<rparr>) \<and>
   (requests (confirmReject who be rejectionNotes st) \<noteq> requests st \<or>
    db_claims (confirmReject who be rejectionNotes st) \<noteq> db_claims st
      \<longrightarrow> trim rejectionNotes \<noteq> []) \<and>
   (trim rejectionNotes \<noteq> [] \<and> truthy_str (currentClaim st) \<longrightarrow>
      UpdateClaim (the (currentClaim st)) \<in> set (requests (confirmReject who be rejectionNotes st)))"
proof (intro conjI impI)
  assume "trim rejectionNotes = []"
  then show "confirmReject who be rejectionNotes st =
        st\<lparr>toasts := toasts st @ [(''error'', ''Error'', ''Please provide a reason for rejection'')]\<rparr>"
    by (rule confirmReject_empty)
next
  assume changed: "requests (confirmReject who be rejectionNotes st) \<noteq> requests st \<or>
    db_claims (confirmReject who be rejectionNotes st) \<noteq> db_claims st"
  show "trim rejectionNotes \<noteq> []"
  proof
    assume "trim rejectionNotes = []"
    then have "confirmReject who be rejectionNotes st =
        st\<lparr>toasts := toasts st @ [(''error'', ''Error'', ''Please provide a reason for rejection'')]\<rparr>"
      by (rule confirmReject_empty)
    then have "requests (confirmReject who be rejectionNotes st) = requests st"
      and "db_claims (confirmReject who be rejectionNotes st) = db_claims st"
      by simp_all
    with changed show False by simp
  qed
next
  assume "trim rejectionNotes \<noteq> [] \<and> truthy_str (currentClaim st)"
  then show "UpdateClaim (the (currentClaim st)) \<in> set (requests (confirmReject who be rejectionNotes st))"
    using confirmReject_issues by blast
qed

text \<open>A reason of blanks and a tab is refused; a reason with text is sent.\<close>

theorem rejection_needs_reason_witness:
  "trim [CHR '' '', CHR 0x09, CHR '' ''] = [] \<and>
   confirmReject CarCompany answering_backend [CHR '' '', CHR 0x09, CHR '' '']
       (review_page (submitted_claim ''c1'') (uploaded_document ''d1'' ''c1'' ''lto_or'')) =
     (review_page (submitted_claim ''c1'') (uploaded_document ''d1'' ''c1'' ''lto_or''))
       \<lparr>toasts := [(''error'', ''Error'', ''Please provide a reason for rejection'')]\<rparr> \<and>
   UpdateClaim ''c1'' \<in> set (requests (confirmReject InsuranceCompany answering_backend '' not covered ''
       (review_page (submitted_claim ''c1'') (uploaded_document ''d1'' ''c1'' ''lto_or''))))"
proof -
  let ?st = "review_page (submitted_claim ''c1'') (uploaded_document ''d1'' ''c1'' ''lto_or'')"
  have blank: "trim [CHR '' '', CHR 0x09, CHR '' ''] = []"
    by (simp add: trim_def js_whitespace_def)
  have reason: "trim '' not covered '' \<noteq> [] \<and> truthy_str (currentClaim ?st)"
    by (simp add: trim_def js_whitespace_def review_page_def submitted_claim_def truthy_str_def)
  have cc: "the (currentClaim ?st) = ''c1''" and t: "toasts ?st = []"
    by (simp_all add: review_page_def submitted_claim_def)
  from blank rejection_needs_reason [of "[CHR '' '', CHR 0x09, CHR '' '']" CarCompany answering_backend ?st]
  have "confirmReject CarCompany answering_backend [CHR '' '', CHR 0x09, CHR '' ''] ?st =
     ?st\<lparr>toasts := toasts ?st @ [(''error'', ''Error'', ''Please provide a reason for rejection'')]\<rparr>"
    by blast
  moreover from reason rejection_needs_reason [of "'' not covered ''" InsuranceCompany answering_backend ?st]
  have "UpdateClaim (the (currentClaim ?st)) \<in> set (requests (confirmReject InsuranceCompany answering_backend '' not covered '' ?st))"
    by blast
  ultimately show ?thesis using blank by (simp add: cc t)
qed

section \<open>The approve control on the review pages\<close>

text \<open>
  The Approve button can be used when the row that holds it is displayed and the button
  is not disabled. What the load of a claim makes of both:
\<close>

lemma car_load_approve_gate:
  assumes "select_single cid (db_claims st) = Some c"
  shows "approve_disabled (car_viewClaimDocuments cid st) \<longleftrightarrow>
           \<not> ((\<exists>d \<in> set (db_documents st). doc_claim_id d = cid \<and>
                   doc_type d \<in> set car_CAR_COMPANY_DOCUMENT_TYPES) \<and>
               (\<forall>d \<in> set (db_documents st). doc_claim_id d = cid \<and>
                   doc_type d \<in> set car_CAR_COMPANY_DOCUMENT_TYPES
                   \<longrightarrow> truthy_bool (verified_by_car_company d))) \<or>
           truthy_bool (is_approved_by_car_company c)"
    and "actions_displayed (car_viewClaimDocuments cid st) \<longleftrightarrow>
           \<not> truthy_bool (is_approved_by_car_company c) \<and>
           car_company_status c \<noteq> Some ''rejected'' \<and> \<not> viewer_open st"
proof -
  show "approve_disabled (car_viewClaimDocuments cid st) \<longleftrightarrow>
           \<not> ((\<exists>d \<in> set (db_documents st). doc_claim_id d = cid \<and>
                   doc_type d \<in> set car_CAR_COMPANY_DOCUMENT_TYPES) \<and>
               (\<forall>d \<in> set (db_documents st). doc_claim_id d = cid \<and>
                   doc_type d \<in> set car_CAR_COMPANY_DOCUMENT_TYPES
                   \<longrightarrow> truthy_bool (verified_by_car_company d))) \<or>
           truthy_bool (is_approved_by_car_company c)"
    using assms
    by (auto simp: car_viewClaimDocuments_def car_loadClaimDocuments_def Let_def
          car_applyApprovedState_def hide_actions_def car_setDecisionButtonsState_def
          car_updateDocumentStats_def approve_disabled_car filter_empty_conv)
  show "actions_displayed (car_viewClaimDocuments cid st) \<longleftrightarrow>
           \<not> truthy_bool (is_approved_by_car_company c) \<and>
           car_company_status c \<noteq> Some ''rejected'' \<and> \<not> viewer_open st"
    using assms
    by (auto simp: car_viewClaimDocuments_def car_loadClaimDocuments_def Let_def
          car_applyApprovedState_def hide_actions_def car_setDecisionButtonsState_def
          car_updateDocumentStats_def truthy_str_def)
qed

lemma ins_load_approve_gate:
  assumes "select_single cid (db_claims st) = Some c"
  shows "approve_disabled (ins_loadClaimDocuments cid st) \<longleftrightarrow>
           \<not> ((\<exists>d \<in> set (db_documents st). doc_claim_id d = cid \<and>
                   doc_type d \<in> set INSURANCE_DOCUMENT_TYPES) \<and>
               (\<forall>d \<in> set (db_documents st). doc_claim_id d = cid \<and>
                   doc_type d \<in> set INSURANCE_DOCUMENT_TYPES
                   \<longrightarrow> truthy_bool (verified_by_insurance_company d)))"
    and "actions_displayed (ins_loadClaimDocuments cid st) \<longleftrightarrow>
           status c \<noteq> Some ''approved'' \<and> status c \<noteq> Some ''rejected'' \<and> \<not> viewer_open st"
proof -
  show "approve_disabled (ins_loadClaimDocuments cid st) \<longleftrightarrow>
           \<not> ((\<exists>d \<in> set (db_documents st). doc_claim_id d = cid \<and>
                   doc_type d \<in> set INSURANCE_DOCUMENT_TYPES) \<and>
               (\<forall>d \<in> set (db_documents st). doc_claim_id d = cid \<and>
                   doc_type d \<in> set INSURANCE_DOCUMENT_TYPES
                   \<longrightarrow> truthy_bool (verified_by_insurance_company d)))"
    using assms
    by (auto simp: ins_loadClaimDocuments_def Let_def ins_applyApprovedState_def hide_actions_def
          ins_updateApprovalButtonStatus_def approve_disabled_ins filter_empty_conv)
  show "actions_displayed (ins_loadClaimDocuments cid st) \<longleftrightarrow>
           status c \<noteq> Some ''approved'' \<and> status c \<noteq> Some ''rejected'' \<and> \<not> viewer_open st"
    using assms
    by (auto simp: ins_loadClaimDocuments_def Let_def ins_applyApprovedState_def hide_actions_def
          ins_updateApprovalButtonStatus_def approve_disabled_ins)
qed

text \<open>
  So right after a claim is loaded, Approve is displayed and not disabled only when the
  claim has relevant documents, all of them are verified by the reviewer and the claim is
  not approved (in the car-company portal: not flagged as approved by the car company;
  in the insurance portal: its status is not approved), in both portals.
\<close>

lemma approve_enabled_at_load:
  assumes "select_single cid (db_claims st) = Some c"
  shows "actions_displayed (car_viewClaimDocuments cid st) \<and>
         \<not> approve_disabled (car_viewClaimDocuments cid st) \<longrightarrow>
           (\<forall>d \<in> set (currentDocuments (car_viewClaimDocuments cid st)).
               truthy_bool (verified_by_car_company d)) \<and>
           currentDocuments (car_viewClaimDocuments cid st) \<noteq> [] \<and>
           \<not> truthy_bool (is_approved_by_car_company c)"
    and "actions_displayed (ins_loadClaimDocuments cid st) \<and>
         \<not> approve_disabled (ins_loadClaimDocuments cid st) \<longrightarrow>
           (\<forall>d \<in> set (currentDocuments (ins_loadClaimDocuments cid st)).
               doc_type d \<in> set INSURANCE_DOCUMENT_TYPES \<longrightarrow>
               truthy_bool (verified_by_insurance_company d)) \<and>
           (\<exists>d \<in> set (currentDocuments (ins_loadClaimDocuments cid st)).
               doc_type d \<in> set INSURANCE_DOCUMENT_TYPES) \<and>
           status c \<noteq> Some ''approved''"
proof -
  have cd: "currentDocuments (car_viewClaimDocuments cid st) =
      filter (\<lambda>d. doc_claim_id d = cid \<and> doc_type d \<in> set car_CAR_COMPANY_DOCUMENT_TYPES)
        (db_documents st)"
    using assms
    by (simp add: car_viewClaimDocuments_def car_loadClaimDocuments_def Let_def
          car_applyApprovedState_def hide_actions_def car_setDecisionButtonsState_def
          car_updateDocumentStats_def)
  show "actions_displayed (car_viewClaimDocuments cid st) \<and>
         \<not> approve_disabled (car_viewClaimDocuments cid st) \<longrightarrow>
           (\<forall>d \<in> set (currentDocuments (car_viewClaimDocuments cid st)).
               truthy_bool (verified_by_car_company d)) \<and>
           currentDocuments (car_viewClaimDocuments cid st) \<noteq> [] \<and>
           \<not> truthy_bool (is_approved_by_car_company c)"
    unfolding cd using car_load_approve_gate [OF assms]
    by (auto simp: filter_empty_conv)
  have id: "currentDocuments (ins_loadClaimDocuments cid st) =
      filter (\<lambda>d. doc_claim_id d = cid) (db_documents st)"
    using assms
    by (simp add: ins_loadClaimDocuments_def Let_def ins_applyApprovedState_def hide_actions_def
          ins_updateApprovalButtonStatus_def)
  show "actions_displayed (ins_loadClaimDocuments cid st) \<and>
         \<not> approve_disabled (ins_loadClaimDocuments cid st) \<longrightarrow>
           (\<forall>d \<in> set (currentDocuments (ins_loadClaimDocuments cid st)).
               doc_type d \<in> set INSURANCE_DOCUMENT_TYPES \<longrightarrow>
               truthy_bool (verified_by_insurance_company d)) \<and>
           (\<exists>d \<in> set (currentDocuments (ins_loadClaimDocuments cid st)).
               doc_type d \<in> set INSURANCE_DOCUMENT_TYPES) \<and>
           status c \<noteq> Some ''approved''"
    unfolding id using ins_load_approve_gate [OF assms]
    by auto
qed

lemma replace_first_mem: "find p xs = Some d \<Longrightarrow> f d \<in> set (replace_first p f xs)"
  by (induction xs) (auto split: if_splits)

lemma ins_rejection_disables_approve:
  assumes "reason \<noteq> []" and "reason = ''others'' \<longrightarrow> trim other \<noteq> []"
    and "currentDocId st = Some did" and "did \<noteq> []" and "\<not> document_update_fails be"
    and "find (\<lambda>d. doc_id d = did) (currentDocuments st) = Some d"
    and "doc_type d \<in> set INSURANCE_DOCUMENT_TYPES"
  shows "approve_disabled (ins_confirmDocumentRejection be reason other st)"
proof -
  let ?n = "if reason = ''others'' then ''Other: '' @ trim other else reason"
  let ?docs = "replace_first (\<lambda>doc. doc_id doc = did) (ins_reject_update ?n) (currentDocuments st)"
  have m: "ins_reject_update ?n d \<in> set ?docs"
    using assms(6) by (rule replace_first_mem)
  have "approve_disabled (ins_confirmDocumentRejection be reason other st) =
        approveClaimBtn_disabled
          (updateApprovalButtonStatus (currentClaimApproved st) (viewer_open st)
             (filter (\<lambda>doc. doc_type doc \<in> set INSURANCE_DOCUMENT_TYPES) ?docs))"
    using assms(1-5)
    by (auto simp: truthy_str_def ins_confirmDocumentRejection_def Let_def
          ins_viewDocument_frame showSuccess_frame ins_refresh_buttons_def
          ins_updateApprovalButtonStatus_def write_claim_def update_claim_def
          update_local_def update_document_def)
  moreover have "ins_reject_update ?n d \<in>
      set (filter (\<lambda>doc. doc_type doc \<in> set INSURANCE_DOCUMENT_TYPES) ?docs)"
    using m assms(7) by (simp add: ins_reject_update_def)
  moreover have "\<not> truthy_bool (verified_by_insurance_company (ins_reject_update ?n d))"
    by (simp add: ins_reject_update_def truthy_bool_def)
  ultimately show ?thesis
    unfolding approve_disabled_ins by blast
qed

lemma car_rejection_keeps_approve:
  "approve_disabled (car_confirmDocumentRejection be reason other st) = approve_disabled st"
  by (auto simp: car_confirmDocumentRejection_def Let_def showError_frame
        car_viewDocument_frame showSuccess_frame car_updateDocumentStats_frame
        write_claim_def update_claim_def update_local_def update_document_def)

text \<open>
  Claim C1: Approve is enabled only when every relevant document of the claim is verified
  and the claim is not approved; with an unverified relevant document it is disabled.
  Right after a claim is loaded this holds in both portals, as shown above. On the
  documents page of the car-company portal it fails after the rejection of a document,
  because the rejection leaves the button as it was. A claim whose only document is
  verified is opened: Approve is displayed and enabled. The document is opened in the
  viewer and rejected as expired, and the viewer is closed: the document is not verified,
  in the table and on the page, and Approve is displayed and still enabled; confirming the
  approval then marks the claim as approved by the car company. The button stays so until
  the documents of the claim are loaded again, by the reload that follows a realtime event
  or by the poll, which are not part of the model.
\<close>

theorem approve_stale_after_rejection:
  "actions_displayed car_documents_page \<and> \<not> approve_disabled car_documents_page \<and>
   map verified_by_car_company (currentDocuments car_documents_page) = [Some True] \<and>
   map verified_by_car_company
     (currentDocuments
        (closeDocumentViewer
           (car_confirmDocumentRejection answering_backend ''document_expired'' []
              (car_viewDocument ''d1'' car_documents_page)))) = [Some False] \<and>
   map verified_by_car_company
     (db_documents
        (closeDocumentViewer
           (car_confirmDocumentRejection answering_backend ''document_expired'' []
              (car_viewDocument ''d1'' car_documents_page)))) = [Some False] \<and>
   actions_displayed
     (closeDocumentViewer
        (car_confirmDocumentRejection answering_backend ''document_expired'' []
           (car_viewDocument ''d1'' car_documents_page))) \<and>
   \<not> approve_disabled
     (closeDocumentViewer
        (car_confirmDocumentRejection answering_backend ''document_expired'' []
           (car_viewDocument ''d1'' car_documents_page))) \<and>
   map car_company_status
     (db_claims
        (car_confirmApprove answering_backend
           (closeDocumentViewer
              (car_confirmDocumentRejection answering_backend ''document_expired'' []
                 (car_viewDocument ''d1'' car_documents_page))))) = [Some ''approved''] \<and>
   map is_approved_by_car_company
     (db_claims
        (car_confirmApprove answering_backend
           (closeDocumentViewer
              (car_confirmDocumentRejection answering_backend ''document_expired'' []
                 (car_viewDocument ''d1'' car_documents_page))))) = [Some True]"
  by code_simp

text \<open>
  On the same page the withdrawal of the verification disables Approve, and so do the
  rejection and the withdrawal in the insurance portal.
\<close>

lemma approve_refreshed_by_siblings:
  "approve_disabled
     (closeDocumentViewer
        (car_handleDocumentDecision answering_backend ''unverify''
           (car_viewDocument ''d1'' car_documents_page))) \<and>
   \<not> approve_disabled ins_documents_page \<and>
   approve_disabled
     (closeDocumentViewer
        (ins_confirmDocumentRejection answering_backend ''document_expired'' []
           (ins_viewDocument ''d1'' True ins_documents_page))) \<and>
   approve_disabled
     (closeDocumentViewer
        (ins_handleDocumentDecision answering_backend ''unverify''
           (ins_viewDocument ''d1'' True ins_documents_page)))"
  by code_simp

section \<open>Properties of the signup form\<close>

lemma dbRole_cases:
  "dbRole (normalizeSelection role) \<in> {''car_company'', ''insurance_company'', ''admin'', ''user''}"
  by (simp add: normalizeSelection_def Let_def)

lemma dbRole_truthy: "truthy_str (Some (dbRole (normalizeSelection role)))"
  using dbRole_cases [of role] by (auto simp: truthy_str_def)

lemma dbRole_default: "\<not> truthy_str role \<Longrightarrow> dbRole (normalizeSelection role) = ''user''"
  by (simp add: normalizeSelection_def)

text \<open>
  Claim C10 says that no request is sent unless a role is selected. A form with a valid
  email and password and no role selected (the select is missing, or its value is empty)
  sends the request, for an account of role \<open>user\<close>.
\<close>

theorem signup_without_role:
  "calls (handleSignup \<lparr>adminEmail = Some ''admin@example.com'', adminPassword = Some ''12345678'',
                        confirmPassword = Some ''12345678'', portalRole = None\<rparr>) =
     [SignUp ''admin@example.com'' ''12345678'' ''user'' ''user''] \<and>
   calls (handleSignup \<lparr>adminEmail = Some ''admin@example.com'', adminPassword = Some ''12345678'',
                        confirmPassword = Some ''12345678'', portalRole = Some []\<rparr>) =
     [SignUp ''admin@example.com'' ''12345678'' ''user'' ''user'']"
  by code_simp

text \<open>
  Claim C10, as amended: the signup request is sent only when the email is not empty, the
  password has eight characters or more and equals the confirmation; when one of these
  fails the form shows one error and sends nothing, and otherwise it sends the request,
  whatever the selection of the role. The role handed to the validation is the
  \<open>dbRole\<close> of \<open>normalizeSelection\<close>, which is never empty and is \<open>user\<close> when
  nothing is selected, so the check of the role cannot fail and its message is never
  shown.
\<close>

theorem signup_gate:
  "(calls (handleSignup form) \<noteq> [] \<longrightarrow>
      truthy_str (map_option trim (adminEmail form)) \<and>
      truthy_str (adminPassword form) \<and> 8 \<le> length (the (adminPassword form)) \<and>
      adminPassword form = confirmPassword form) \<and>
   (\<not> (truthy_str (map_option trim (adminEmail form)) \<and>
        truthy_str (adminPassword form) \<and> 8 \<le> length (the (adminPassword form)) \<and>
        adminPassword form = confirmPassword form) \<longrightarrow>
      calls (handleSignup form) = [] \<and>
      (\<exists>m. messages (handleSignup form) = [(m, ''error'')])) \<and>
   (truthy_str (map_option trim (adminEmail form)) \<and>
    truthy_str (adminPassword form) \<and> 8 \<le> length (the (adminPassword form)) \<and>
    adminPassword form = confirmPassword form \<longrightarrow>
      calls (handleSignup form) =
        [SignUp (trim (the (adminEmail form))) (the (adminPassword form))
           (dbRole (normalizeSelection (portalRole form)))
           (metadataRole (normalizeSelection (portalRole form)))]) \<and>
   (''Select the portal role that should be assigned to this account.'', ''error'')
      \<notin> set (messages (handleSignup form)) \<and>
   dbRole (normalizeSelection role) \<noteq> [] \<and>
   (\<not> truthy_str role \<longrightarrow> dbRole (normalizeSelection role) = ''user'')"
proof -
  have r: "truthy_str (Some (dbRole (normalizeSelection (portalRole form))))"
    by (rule dbRole_truthy)
  have 1: "calls (handleSignup form) \<noteq> [] \<longrightarrow>
      truthy_str (map_option trim (adminEmail form)) \<and>
      truthy_str (adminPassword form) \<and> 8 \<le> length (the (adminPassword form)) \<and>
      adminPassword form = confirmPassword form"
    by (auto simp: handleSignup_def validatePayload_def Let_def split: if_splits)
  have 2: "\<not> (truthy_str (map_option trim (adminEmail form)) \<and>
        truthy_str (adminPassword form) \<and> 8 \<le> length (the (adminPassword form)) \<and>
        adminPassword form = confirmPassword form) \<longrightarrow>
      calls (handleSignup form) = [] \<and>
      (\<exists>m. messages (handleSignup form) = [(m, ''error'')])"
    by (auto simp: handleSignup_def validatePayload_def Let_def split: if_splits)
  have 3: "truthy_str (map_option trim (adminEmail form)) \<and>
    truthy_str (adminPassword form) \<and> 8 \<le> length (the (adminPassword form)) \<and>
    adminPassword form = confirmPassword form \<longrightarrow>
      calls (handleSignup form) =
        [SignUp (trim (the (adminEmail form))) (the (adminPassword form))
           (dbRole (normalizeSelection (portalRole form)))
           (metadataRole (normalizeSelection (portalRole form)))]"
    using r
    by (cases "adminEmail form")
       (auto simp: handleSignup_def validatePayload_def Let_def truthy_str_def)
  have 4: "dbRole (normalizeSelection role) \<noteq> []"
    using dbRole_cases [of role] by auto
  have 5: "(''Select the portal role that should be assigned to this account.'', ''error'')
      \<notin> set (messages (handleSignup form))"
    using r by (auto simp: handleSignup_def validatePayload_def Let_def split: if_splits)
  show ?thesis using 1 2 3 4 5 dbRole_default [of role] by blast
qed

text \<open>
  A password of seven characters sends nothing; a valid form with the car company selected
  sends the request with that role; and with no selection the role is \<open>user\<close>.
\<close>

theorem signup_gate_witness:
  "calls (handleSignup \<lparr>adminEmail = Some ''admin@example.com'', adminPassword = Some ''1234567'',
                        confirmPassword = Some ''1234567'', portalRole = Some ''car-company''\<rparr>) = [] \<and>
   calls (handleSignup \<lparr>adminEmail = Some '' admin@example.com '', adminPassword = Some ''12345678'',
                        confirmPassword = Some ''12345678'', portalRole = Some ''Car Company''\<rparr>) =
     [SignUp ''admin@example.com'' ''12345678'' ''car_company'' ''car-company''] \<and>
   dbRole (normalizeSelection None) = ''user''"
proof -
  let ?bad = "\<lparr>adminEmail = Some ''admin@example.com'', adminPassword = Some ''1234567'',
                confirmPassword = Some ''1234567'', portalRole = Some ''car-company''\<rparr>"
  let ?good = "\<lparr>adminEmail = Some '' admin@example.com '', adminPassword = Some ''12345678'',
                 confirmPassword = Some ''12345678'', portalRole = Some ''Car Company''\<rparr>"
  have b: "\<not> (truthy_str (map_option trim (adminEmail ?bad)) \<and>
        truthy_str (adminPassword ?bad) \<and> 8 \<le> length (the (adminPassword ?bad)) \<and>
        adminPassword ?bad = confirmPassword ?bad)"
    by simp
  have g: "truthy_str (map_option trim (adminEmail ?good)) \<and>
        truthy_str (adminPassword ?good) \<and> 8 \<le> length (the (adminPassword ?good)) \<and>
        adminPassword ?good = confirmPassword ?good"
    by (simp add: truthy_str_def trim_def js_whitespace_def)
  have e: "trim (the (adminEmail ?good)) = ''admin@example.com''"
    by (simp add: trim_def js_whitespace_def)
  have n: "normalizeSelection (portalRole ?good) =
             \<lparr>dbRole = ''car_company'', metadataRole = ''car-company''\<rparr>"
    by code_simp
  have u: "\<not> truthy_str None"
    by (simp add: truthy_str_def)
  from b signup_gate [of ?bad] have 1: "calls (handleSignup ?bad) = []" by blast
  from g signup_gate [of ?good] have "calls (handleSignup ?good) =
        [SignUp (trim (the (adminEmail ?good))) (the (adminPassword ?good))
           (dbRole (normalizeSelection (portalRole ?good)))
           (metadataRole (normalizeSelection (portalRole ?good)))]"
    by blast
  then have 2: "calls (handleSignup ?good) =
      [SignUp ''admin@example.com'' ''12345678'' ''car_company'' ''car-company'']"
    by (simp only: e n) simp
  from u signup_gate [of ?bad None] have 3: "dbRole (normalizeSelection None) = ''user''" by blast
  from 1 2 3 show ?thesis by simp
qed

end
